theory Spec2Isabelle
  imports Main "HOL-Library.Word"
begin

section \<open>The schema: enumerated types and tables\<close>

text \<open>
  The migration declares two enums and five tables. A \<open>UUID\<close> is kept as the text the
  client sees (\<open>id: string\<close>), a \<open>TIMESTAMPTZ\<close> as an integer instant. An \<open>INTEGER\<close>
  column holds a 32-bit signed value: a \<open>32 word\<close>, read by \<open>sint\<close>; no arithmetic is done on
  it. A column declared \<open>NOT NULL\<close> has a plain type, a nullable one an option.
  A row of \<open>auth.users\<close> carries the three columns the provisioning trigger reads; its
  \<open>email\<close> is nullable there, and \<open>raw_user_meta_data\<close> is a JSON object given by its
  key/text pairs (keys distinct), which is what the JSON text lookup reads.
\<close>

type_synonym uuid = string
type_synonym timestamptz = int
type_synonym int4 = "32 word"

datatype app_role = admin | leitor

datatype status_matricula = ATIVO | INATIVO | TRANCADO | FORMADO

record auth_user =
  u_id :: uuid
  u_email :: "string option"
  u_raw_user_meta_data :: "(string \<times> string) list"

record profile =
  p_id :: uuid
  p_nome_completo :: string
  p_email :: string
  p_created_at :: timestamptz
  p_updated_at :: timestamptz

record user_role =
  ur_id :: uuid
  ur_user_id :: uuid
  ur_role :: app_role
  ur_created_at :: timestamptz

record curso =
  c_id :: uuid
  c_nome :: string
  c_codigo_curso :: string
  c_duracao_semestres :: int4
  c_created_at :: timestamptz
  c_updated_at :: timestamptz

record aluno =
  a_id :: uuid
  a_nome_completo :: string
  a_matricula :: string
  a_cpf :: string
  a_email :: string
  a_data_nascimento :: string
  a_telefone :: "string option"
  a_status :: status_matricula
  a_created_at :: timestamptz
  a_updated_at :: timestamptz

record matricula =
  m_id :: uuid
  m_aluno_id :: uuid
  m_curso_id :: uuid
  m_ano_ingresso :: int4
  m_semestre_ingresso :: int4
  m_data_matricula :: timestamptz

record store =
  users :: "auth_user list"
  profiles :: "profile list"
  user_roles :: "user_role list"
  cursos :: "curso list"
  alunos :: "aluno list"
  matriculas :: "matricula list"

datatype table_name = Auth_users | Profiles | User_roles | Cursos | Alunos | Matriculas

text \<open>
  What a request can be refused with: a number that does not fit its \<open>INTEGER\<close> column
  (SQLSTATE 22003), the row-level policy check on a new row (42501), and the
  constraints of the schema, each named by its table and columns.
\<close>

datatype pg_error =
    Numeric_value_out_of_range table_name string
  | Insufficient_privilege table_name
  | Not_null_violation table_name string
  | Check_violation table_name string
  | Unique_violation table_name "string list"
  | Foreign_key_violation table_name string

section \<open>Sessions and the role predicate\<close>

text \<open>
  A request reaches the store as the \<open>anon\<close> role (no subject, \<open>auth.uid()\<close> is NULL) or
  as \<open>authenticated\<close> with the subject's id. A comparison with NULL is not true, so
  \<open>has_role\<close> finds no row for it.
\<close>

datatype session = Anon | Authenticated uuid

fun auth_uid :: "session \<Rightarrow> uuid option" where
  "auth_uid Anon = None"
| "auth_uid (Authenticated u) = Some u"

definition has_role :: "store \<Rightarrow> uuid option \<Rightarrow> app_role \<Rightarrow> bool" where
  "has_role st user_id role =
     (case user_id of
        None \<Rightarrow> False
      | Some u \<Rightarrow> list_ex (\<lambda>r. ur_user_id r = u \<and> ur_role r = role) (user_roles st))"

section \<open>Row-level policies\<close>

text \<open>
  Each \<open>CREATE POLICY\<close> is a record: the command it is \<open>FOR\<close>, the role it is \<open>TO\<close>
  (PUBLIC when the clause is absent) and its \<open>USING\<close> expression. No policy of the
  migration has a \<open>WITH CHECK\<close> clause, so the \<open>USING\<close> expression also checks new rows.
  Row-level security is enabled on all five tables; policies are permissive, so a row
  passes when one applicable policy accepts it, and none applicable means refusal.
\<close>

datatype command = SELECT | INSERT | UPDATE | DELETE

datatype policy_for = FOR_ALL | FOR command

datatype policy_to = PUBLIC | TO_authenticated

record 'r policy =
  pol_for :: policy_for
  pol_to :: policy_to
  pol_using :: "store \<Rightarrow> session \<Rightarrow> 'r \<Rightarrow> bool"

definition policies_profiles :: "profile policy list" where
  "policies_profiles =
     [\<lparr>pol_for = FOR SELECT, pol_to = PUBLIC,
        pol_using = (\<lambda>st s r. auth_uid s = Some (p_id r))\<rparr>,
      \<lparr>pol_for = FOR UPDATE, pol_to = PUBLIC,
        pol_using = (\<lambda>st s r. auth_uid s = Some (p_id r))\<rparr>,
      \<lparr>pol_for = FOR SELECT, pol_to = PUBLIC,
        pol_using = (\<lambda>st s r. has_role st (auth_uid s) admin)\<rparr>]"

definition policies_user_roles :: "user_role policy list" where
  "policies_user_roles =
     [\<lparr>pol_for = FOR_ALL, pol_to = PUBLIC,
        pol_using = (\<lambda>st s r. has_role st (auth_uid s) admin)\<rparr>,
      \<lparr>pol_for = FOR SELECT, pol_to = PUBLIC,
        pol_using = (\<lambda>st s r. auth_uid s = Some (ur_user_id r))\<rparr>]"

definition policies_cursos :: "curso policy list" where
  "policies_cursos =
     [\<lparr>pol_for = FOR SELECT, pol_to = TO_authenticated,
        pol_using = (\<lambda>st s r. True)\<rparr>,
      \<lparr>pol_for = FOR_ALL, pol_to = PUBLIC,
        pol_using = (\<lambda>st s r. has_role st (auth_uid s) admin)\<rparr>]"

definition policies_alunos :: "aluno policy list" where
  "policies_alunos =
     [\<lparr>pol_for = FOR SELECT, pol_to = TO_authenticated,
        pol_using = (\<lambda>st s r. True)\<rparr>,
      \<lparr>pol_for = FOR_ALL, pol_to = PUBLIC,
        pol_using = (\<lambda>st s r. has_role st (auth_uid s) admin)\<rparr>]"

definition policies_matriculas :: "matricula policy list" where
  "policies_matriculas =
     [\<lparr>pol_for = FOR SELECT, pol_to = TO_authenticated,
        pol_using = (\<lambda>st s r. True)\<rparr>,
      \<lparr>pol_for = FOR_ALL, pol_to = PUBLIC,
        pol_using = (\<lambda>st s r. has_role st (auth_uid s) admin)\<rparr>]"

definition applies :: "session \<Rightarrow> command \<Rightarrow> 'r policy \<Rightarrow> bool" where
  "applies s cmd p =
     ((pol_for p = FOR_ALL \<or> pol_for p = FOR cmd) \<and>
      (pol_to p = PUBLIC \<or> s \<noteq> Anon))"

definition rls_permits ::
  "'r policy list \<Rightarrow> store \<Rightarrow> session \<Rightarrow> command \<Rightarrow> 'r \<Rightarrow> bool" where
  "rls_permits ps st s cmd r = list_ex (\<lambda>p. applies s cmd p \<and> pol_using p st s r) ps"

text \<open>
  An \<open>UPDATE\<close> or \<open>DELETE\<close> whose \<open>WHERE\<close> clause reads the row needs the row to pass
  the \<open>SELECT\<close> policies as well; an updated row is checked again after the change.
\<close>

definition rls_target ::
  "'r policy list \<Rightarrow> store \<Rightarrow> session \<Rightarrow> command \<Rightarrow> 'r \<Rightarrow> bool" where
  "rls_target ps st s cmd r = (rls_permits ps st s cmd r \<and> rls_permits ps st s SELECT r)"

section \<open>Constraints\<close>

text \<open>
  The constraints of a table, in the order the engine checks a new row: \<open>CHECK\<close>
  constraints, then the unique indexes (primary key first, then in declaration
  order), then the foreign keys. \<open>others\<close> are the rows of the table the new row is
  compared with. The first violation is the one reported.
\<close>

fun first_violation :: "(bool \<times> pg_error) list \<Rightarrow> pg_error option" where
  "first_violation [] = None"
| "first_violation ((violated, e) # cs) = (if violated then Some e else first_violation cs)"

definition profiles_constraints :: "store \<Rightarrow> profile list \<Rightarrow> profile \<Rightarrow> pg_error option" where
  "profiles_constraints st others n = first_violation
     [(list_ex (\<lambda>r. p_id r = p_id n) others, Unique_violation Profiles [''id'']),
      (list_ex (\<lambda>r. p_email r = p_email n) others, Unique_violation Profiles [''email'']),
      (\<not> list_ex (\<lambda>u. u_id u = p_id n) (users st), Foreign_key_violation Profiles ''id'')]"

definition user_roles_constraints ::
  "store \<Rightarrow> user_role list \<Rightarrow> user_role \<Rightarrow> pg_error option" where
  "user_roles_constraints st others n = first_violation
     [(list_ex (\<lambda>r. ur_id r = ur_id n) others, Unique_violation User_roles [''id'']),
      (list_ex (\<lambda>r. ur_user_id r = ur_user_id n \<and> ur_role r = ur_role n) others,
         Unique_violation User_roles [''user_id'', ''role'']),
      (\<not> list_ex (\<lambda>p. p_id p = ur_user_id n) (profiles st),
         Foreign_key_violation User_roles ''user_id'')]"

definition cursos_constraints :: "store \<Rightarrow> curso list \<Rightarrow> curso \<Rightarrow> pg_error option" where
  "cursos_constraints st others n = first_violation
     [(list_ex (\<lambda>r. c_id r = c_id n) others, Unique_violation Cursos [''id'']),
      (list_ex (\<lambda>r. c_nome r = c_nome n) others, Unique_violation Cursos [''nome'']),
      (list_ex (\<lambda>r. c_codigo_curso r = c_codigo_curso n) others,
         Unique_violation Cursos [''codigo_curso''])]"

definition alunos_constraints :: "store \<Rightarrow> aluno list \<Rightarrow> aluno \<Rightarrow> pg_error option" where
  "alunos_constraints st others n = first_violation
     [(list_ex (\<lambda>r. a_id r = a_id n) others, Unique_violation Alunos [''id'']),
      (list_ex (\<lambda>r. a_matricula r = a_matricula n) others,
         Unique_violation Alunos [''matricula'']),
      (list_ex (\<lambda>r. a_cpf r = a_cpf n) others, Unique_violation Alunos [''cpf'']),
      (list_ex (\<lambda>r. a_email r = a_email n) others, Unique_violation Alunos [''email''])]"

definition matriculas_constraints ::
  "store \<Rightarrow> matricula list \<Rightarrow> matricula \<Rightarrow> pg_error option" where
  "matriculas_constraints st others n = first_violation
     [(m_semestre_ingresso n \<noteq> 1 \<and> m_semestre_ingresso n \<noteq> 2,
         Check_violation Matriculas ''semestre_ingresso''),
      (list_ex (\<lambda>r. m_id r = m_id n) others, Unique_violation Matriculas [''id'']),
      (list_ex (\<lambda>r. m_aluno_id r = m_aluno_id n \<and> m_curso_id r = m_curso_id n) others,
         Unique_violation Matriculas [''aluno_id'', ''curso_id'']),
      (\<not> list_ex (\<lambda>a. a_id a = m_aluno_id n) (alunos st),
         Foreign_key_violation Matriculas ''aluno_id''),
      (\<not> list_ex (\<lambda>c. c_id c = m_curso_id n) (cursos st),
         Foreign_key_violation Matriculas ''curso_id'')]"

text \<open>
  The foreign keys say \<open>ON DELETE CASCADE\<close> and nothing for updates, so changing a
  referenced key while a referencing row exists is refused.
\<close>

definition profiles_referenced :: "store \<Rightarrow> profile \<Rightarrow> profile \<Rightarrow> pg_error option" where
  "profiles_referenced st old n = first_violation
     [(p_id n \<noteq> p_id old \<and> list_ex (\<lambda>r. ur_user_id r = p_id old) (user_roles st),
         Foreign_key_violation User_roles ''user_id'')]"

definition cursos_referenced :: "store \<Rightarrow> curso \<Rightarrow> curso \<Rightarrow> pg_error option" where
  "cursos_referenced st old n = first_violation
     [(c_id n \<noteq> c_id old \<and> list_ex (\<lambda>m. m_curso_id m = c_id old) (matriculas st),
         Foreign_key_violation Matriculas ''curso_id'')]"

definition alunos_referenced :: "store \<Rightarrow> aluno \<Rightarrow> aluno \<Rightarrow> pg_error option" where
  "alunos_referenced st old n = first_violation
     [(a_id n \<noteq> a_id old \<and> list_ex (\<lambda>m. m_aluno_id m = a_id old) (matriculas st),
         Foreign_key_violation Matriculas ''aluno_id'')]"

definition or_else :: "pg_error option \<Rightarrow> pg_error option \<Rightarrow> pg_error option" where
  "or_else a b = (case a of Some e \<Rightarrow> Some e | None \<Rightarrow> b)"

section \<open>Triggers\<close>

text \<open>
  \<open>update_updated_at_column\<close> assigns \<open>NEW.updated_at = NOW()\<close> and returns \<open>NEW\<close>; it
  is attached \<open>BEFORE UPDATE ... FOR EACH ROW\<close> to profiles, cursos and alunos by the
  three triggers below. \<open>now\<close> is the time of the transaction.
\<close>

definition update_profiles_updated_at :: "timestamptz \<Rightarrow> profile \<Rightarrow> profile" where
  "update_profiles_updated_at now NEW = NEW\<lparr>p_updated_at := now\<rparr>"

definition update_cursos_updated_at :: "timestamptz \<Rightarrow> curso \<Rightarrow> curso" where
  "update_cursos_updated_at now NEW = NEW\<lparr>c_updated_at := now\<rparr>"

definition update_alunos_updated_at :: "timestamptz \<Rightarrow> aluno \<Rightarrow> aluno" where
  "update_alunos_updated_at now NEW = NEW\<lparr>a_updated_at := now\<rparr>"

section \<open>Statements\<close>

text \<open>
  A statement is one transaction: it returns the new store, or the error that rolled
  it back. \<open>INSERT\<close> checks the policies on the new row (an error when refused), then
  the constraints. \<open>UPDATE\<close> walks the table: a row that matches the \<open>WHERE\<close> predicate
  and passes the policies is replaced by what the \<open>SET\<close> clause makes of it, after the
  \<open>BEFORE UPDATE\<close> trigger; the new row is checked against the policies and the
  constraints; a row the policies hide is skipped without an error. \<open>DELETE\<close> removes
  the matching rows the policies show, and the rows that reference them.
\<close>

definition insert_row ::
  "('r \<Rightarrow> bool) \<Rightarrow> pg_error \<Rightarrow> ('r list \<Rightarrow> 'r \<Rightarrow> pg_error option) \<Rightarrow> 'r list \<Rightarrow> 'r
     \<Rightarrow> pg_error + 'r list" where
  "insert_row chk denied viol rows n =
     (if \<not> chk n then Inl denied
      else case viol rows n of Some e \<Rightarrow> Inl e | None \<Rightarrow> Inr (rows @ [n]))"

fun update_rows ::
  "('r \<Rightarrow> bool) \<Rightarrow> ('r \<Rightarrow> 'r) \<Rightarrow> ('r \<Rightarrow> bool) \<Rightarrow> pg_error
     \<Rightarrow> ('r list \<Rightarrow> 'r \<Rightarrow> 'r \<Rightarrow> pg_error option) \<Rightarrow> 'r list \<Rightarrow> 'r list
     \<Rightarrow> pg_error + 'r list" where
  "update_rows tgt new chk denied viol done [] = Inr done"
| "update_rows tgt new chk denied viol done (r # rs) =
     (if tgt r then
        (let n = new r in
         if \<not> chk n then Inl denied
         else case viol (done @ rs) r n of
                Some e \<Rightarrow> Inl e
              | None \<Rightarrow> update_rows tgt new chk denied viol (done @ [n]) rs)
      else update_rows tgt new chk denied viol (done @ [r]) rs)"

definition with_rows :: "pg_error + 'r list \<Rightarrow> ('r list \<Rightarrow> store) \<Rightarrow> pg_error + store" where
  "with_rows res put = (case res of Inl e \<Rightarrow> Inl e | Inr rows \<Rightarrow> Inr (put rows))"

subsection \<open>profiles\<close>

definition insert_profiles :: "store \<Rightarrow> session \<Rightarrow> profile \<Rightarrow> pg_error + store" where
  "insert_profiles st s n =
     with_rows
       (insert_row (rls_permits policies_profiles st s INSERT) (Insufficient_privilege Profiles)
          (profiles_constraints st) (profiles st) n)
       (\<lambda>rows. st\<lparr>profiles := rows\<rparr>)"

definition update_profiles ::
  "store \<Rightarrow> session \<Rightarrow> timestamptz \<Rightarrow> (profile \<Rightarrow> bool) \<Rightarrow> (profile \<Rightarrow> profile)
     \<Rightarrow> pg_error + store" where
  "update_profiles st s now wh set_clause =
     with_rows
       (update_rows (\<lambda>r. wh r \<and> rls_target policies_profiles st s UPDATE r)
          (\<lambda>r. update_profiles_updated_at now (set_clause r))
          (rls_target policies_profiles st s UPDATE) (Insufficient_privilege Profiles)
          (\<lambda>others old n. or_else (profiles_constraints st others n) (profiles_referenced st old n))
          [] (profiles st))
       (\<lambda>rows. st\<lparr>profiles := rows\<rparr>)"

definition delete_profiles :: "store \<Rightarrow> session \<Rightarrow> (profile \<Rightarrow> bool) \<Rightarrow> pg_error + store" where
  "delete_profiles st s wh =
     (let gone = filter (\<lambda>r. wh r \<and> rls_target policies_profiles st s DELETE r) (profiles st)
      in Inr (st\<lparr>profiles := filter (\<lambda>r. \<not> (wh r \<and> rls_target policies_profiles st s DELETE r))
                                (profiles st),
                user_roles := filter (\<lambda>r. ur_user_id r \<notin> set (map p_id gone)) (user_roles st)\<rparr>))"

subsection \<open>user_roles\<close>

definition insert_user_roles :: "store \<Rightarrow> session \<Rightarrow> user_role \<Rightarrow> pg_error + store" where
  "insert_user_roles st s n =
     with_rows
       (insert_row (rls_permits policies_user_roles st s INSERT)
          (Insufficient_privilege User_roles) (user_roles_constraints st) (user_roles st) n)
       (\<lambda>rows. st\<lparr>user_roles := rows\<rparr>)"

definition update_user_roles ::
  "store \<Rightarrow> session \<Rightarrow> (user_role \<Rightarrow> bool) \<Rightarrow> (user_role \<Rightarrow> user_role) \<Rightarrow> pg_error + store" where
  "update_user_roles st s wh set_clause =
     with_rows
       (update_rows (\<lambda>r. wh r \<and> rls_target policies_user_roles st s UPDATE r) set_clause
          (rls_target policies_user_roles st s UPDATE) (Insufficient_privilege User_roles)
          (\<lambda>others old n. user_roles_constraints st others n)
          [] (user_roles st))
       (\<lambda>rows. st\<lparr>user_roles := rows\<rparr>)"

definition delete_user_roles :: "store \<Rightarrow> session \<Rightarrow> (user_role \<Rightarrow> bool) \<Rightarrow> pg_error + store" where
  "delete_user_roles st s wh =
     Inr (st\<lparr>user_roles := filter (\<lambda>r. \<not> (wh r \<and> rls_target policies_user_roles st s DELETE r))
                              (user_roles st)\<rparr>)"

subsection \<open>cursos\<close>

definition insert_cursos :: "store \<Rightarrow> session \<Rightarrow> curso \<Rightarrow> pg_error + store" where
  "insert_cursos st s n =
     with_rows
       (insert_row (rls_permits policies_cursos st s INSERT) (Insufficient_privilege Cursos)
          (cursos_constraints st) (cursos st) n)
       (\<lambda>rows. st\<lparr>cursos := rows\<rparr>)"

definition update_cursos ::
  "store \<Rightarrow> session \<Rightarrow> timestamptz \<Rightarrow> (curso \<Rightarrow> bool) \<Rightarrow> (curso \<Rightarrow> curso) \<Rightarrow> pg_error + store" where
  "update_cursos st s now wh set_clause =
     with_rows
       (update_rows (\<lambda>r. wh r \<and> rls_target policies_cursos st s UPDATE r)
          (\<lambda>r. update_cursos_updated_at now (set_clause r))
          (rls_target policies_cursos st s UPDATE) (Insufficient_privilege Cursos)
          (\<lambda>others old n. or_else (cursos_constraints st others n) (cursos_referenced st old n))
          [] (cursos st))
       (\<lambda>rows. st\<lparr>cursos := rows\<rparr>)"

definition delete_cursos :: "store \<Rightarrow> session \<Rightarrow> (curso \<Rightarrow> bool) \<Rightarrow> pg_error + store" where
  "delete_cursos st s wh =
     (let gone = filter (\<lambda>r. wh r \<and> rls_target policies_cursos st s DELETE r) (cursos st)
      in Inr (st\<lparr>cursos := filter (\<lambda>r. \<not> (wh r \<and> rls_target policies_cursos st s DELETE r))
                              (cursos st),
                matriculas := filter (\<lambda>m. m_curso_id m \<notin> set (map c_id gone)) (matriculas st)\<rparr>))"

subsection \<open>alunos\<close>

definition insert_alunos :: "store \<Rightarrow> session \<Rightarrow> aluno \<Rightarrow> pg_error + store" where
  "insert_alunos st s n =
     with_rows
       (insert_row (rls_permits policies_alunos st s INSERT) (Insufficient_privilege Alunos)
          (alunos_constraints st) (alunos st) n)
       (\<lambda>rows. st\<lparr>alunos := rows\<rparr>)"

definition update_alunos ::
  "store \<Rightarrow> session \<Rightarrow> timestamptz \<Rightarrow> (aluno \<Rightarrow> bool) \<Rightarrow> (aluno \<Rightarrow> aluno) \<Rightarrow> pg_error + store" where
  "update_alunos st s now wh set_clause =
     with_rows
       (update_rows (\<lambda>r. wh r \<and> rls_target policies_alunos st s UPDATE r)
          (\<lambda>r. update_alunos_updated_at now (set_clause r))
          (rls_target policies_alunos st s UPDATE) (Insufficient_privilege Alunos)
          (\<lambda>others old n. or_else (alunos_constraints st others n) (alunos_referenced st old n))
          [] (alunos st))
       (\<lambda>rows. st\<lparr>alunos := rows\<rparr>)"

definition delete_alunos :: "store \<Rightarrow> session \<Rightarrow> (aluno \<Rightarrow> bool) \<Rightarrow> pg_error + store" where
  "delete_alunos st s wh =
     (let gone = filter (\<lambda>r. wh r \<and> rls_target policies_alunos st s DELETE r) (alunos st)
      in Inr (st\<lparr>alunos := filter (\<lambda>r. \<not> (wh r \<and> rls_target policies_alunos st s DELETE r))
                              (alunos st),
                matriculas := filter (\<lambda>m. m_aluno_id m \<notin> set (map a_id gone)) (matriculas st)\<rparr>))"

subsection \<open>matriculas\<close>

definition insert_matriculas :: "store \<Rightarrow> session \<Rightarrow> matricula \<Rightarrow> pg_error + store" where
  "insert_matriculas st s n =
     with_rows
       (insert_row (rls_permits policies_matriculas st s INSERT)
          (Insufficient_privilege Matriculas) (matriculas_constraints st) (matriculas st) n)
       (\<lambda>rows. st\<lparr>matriculas := rows\<rparr>)"

definition update_matriculas ::
  "store \<Rightarrow> session \<Rightarrow> (matricula \<Rightarrow> bool) \<Rightarrow> (matricula \<Rightarrow> matricula) \<Rightarrow> pg_error + store" where
  "update_matriculas st s wh set_clause =
     with_rows
       (update_rows (\<lambda>r. wh r \<and> rls_target policies_matriculas st s UPDATE r) set_clause
          (rls_target policies_matriculas st s UPDATE) (Insufficient_privilege Matriculas)
          (\<lambda>others old n. matriculas_constraints st others n)
          [] (matriculas st))
       (\<lambda>rows. st\<lparr>matriculas := rows\<rparr>)"

definition delete_matriculas :: "store \<Rightarrow> session \<Rightarrow> (matricula \<Rightarrow> bool) \<Rightarrow> pg_error + store" where
  "delete_matriculas st s wh =
     Inr (st\<lparr>matriculas := filter (\<lambda>r. \<not> (wh r \<and> rls_target policies_matriculas st s DELETE r))
                              (matriculas st)\<rparr>)"

subsection \<open>Reading the values of an insert\<close>

text \<open>
  An insert names the values of some columns; the others take their default. The
  numbers it supplies are read into the \<open>INTEGER\<close> columns first: one outside the range
  of a 32-bit signed integer is refused there (\<open>integer out of range\<close>), before the
  policies and the constraints see a row. An insert into matriculas as the client
  builds it supplies \<open>aluno_id\<close>, \<open>curso_id\<close>, \<open>ano_ingresso\<close> and \<open>semestre_ingresso\<close>;
  \<open>id\<close> takes \<open>gen_random_uuid()\<close> and \<open>data_matricula\<close> takes \<open>NOW()\<close>, given here as
  \<open>gen\<close> and \<open>now\<close>.
\<close>

definition in_int4 :: "int \<Rightarrow> bool" where
  "in_int4 i = (- 2147483648 \<le> i \<and> i \<le> 2147483647)"

definition int4_in :: "table_name \<Rightarrow> string \<Rightarrow> int \<Rightarrow> pg_error + int4" where
  "int4_in t col i =
     (if in_int4 i then Inr (word_of_int i) else Inl (Numeric_value_out_of_range t col))"

record matricula_values =
  v_aluno_id :: uuid
  v_curso_id :: uuid
  v_ano_ingresso :: int
  v_semestre_ingresso :: int

definition insert_into_matriculas ::
  "store \<Rightarrow> session \<Rightarrow> uuid \<Rightarrow> timestamptz \<Rightarrow> matricula_values \<Rightarrow> pg_error + store" where
  "insert_into_matriculas st s gen now v =
     (case int4_in Matriculas ''ano_ingresso'' (v_ano_ingresso v) of
        Inl e \<Rightarrow> Inl e
      | Inr ano \<Rightarrow>
          (case int4_in Matriculas ''semestre_ingresso'' (v_semestre_ingresso v) of
             Inl e \<Rightarrow> Inl e
           | Inr semestre \<Rightarrow>
               insert_matriculas st s
                 \<lparr>m_id = gen, m_aluno_id = v_aluno_id v, m_curso_id = v_curso_id v,
                  m_ano_ingresso = ano, m_semestre_ingresso = semestre,
                  m_data_matricula = now\<rparr>))"

section \<open>The provisioning trigger\<close>

text \<open>
  \<open>handle_new_user\<close> runs \<open>AFTER INSERT ON auth.users FOR EACH ROW\<close>, as
  \<open>SECURITY DEFINER\<close>: its insert into profiles is not subject to the policies, only
  to the constraints. It names three columns; the two timestamps take their default
  \<open>NOW()\<close>. The display name is \<open>COALESCE\<close> of the metadata text and the placeholder.
  A NULL email meets the \<open>NOT NULL\<close> column. The trigger runs in the transaction of
  the insert into \<open>auth.users\<close>, so its error is the error of the whole creation.
  The table \<open>auth.users\<close> belongs to the authentication service; of its own rules
  only the primary key on \<open>id\<close>, which \<open>profiles.id\<close> references, is kept here.
\<close>

definition usuario :: string where
  "usuario = ''Usu'' @ [CHR 0xE1] @ ''rio''"



section \<open>Reading under the policies\<close>

text \<open>
  A \<open>SELECT\<close> returns the rows that match its filter and pass the \<open>SELECT\<close> policies.
  \<open>ORDER BY\<close> on a text column follows the collation of the database, a parameter
  here. The enrollment form's student query is
  \<open>from('alunos').select('id, nome_completo, matricula').eq('status', 'ATIVO').order('nome_completo')\<close>.
\<close>

fun insert_by :: "('k \<Rightarrow> 'k \<Rightarrow> bool) \<Rightarrow> ('r \<Rightarrow> 'k) \<Rightarrow> 'r \<Rightarrow> 'r list \<Rightarrow> 'r list" where
  "insert_by le key r [] = [r]"
| "insert_by le key r (x # xs) =
     (if le (key r) (key x) then r # x # xs else x # insert_by le key r xs)"

definition order_by :: "('k \<Rightarrow> 'k \<Rightarrow> bool) \<Rightarrow> ('r \<Rightarrow> 'k) \<Rightarrow> 'r list \<Rightarrow> 'r list" where
  "order_by le key rows = foldr (insert_by le key) rows []"

record aluno_option =
  ao_id :: uuid
  ao_nome_completo :: string
  ao_matricula :: string

record curso_option =
  co_id :: uuid
  co_nome :: string
  co_codigo_curso :: string

record matricula_view =
  mv_matricula :: matricula
  mv_alunos :: "(string \<times> string) option"
  mv_cursos :: "(string \<times> string) option"

definition select_alunos_ativos ::
  "(string \<Rightarrow> string \<Rightarrow> bool) \<Rightarrow> store \<Rightarrow> session \<Rightarrow> aluno_option list" where
  "select_alunos_ativos le st s =
     map (\<lambda>r. \<lparr>ao_id = a_id r, ao_nome_completo = a_nome_completo r,
                ao_matricula = a_matricula r\<rparr>)
       (order_by le a_nome_completo
          (filter (\<lambda>r. a_status r = ATIVO \<and> rls_permits policies_alunos st s SELECT r)
             (alunos st)))"

section \<open>The client: requests, responses, toasts\<close>

text \<open>
  The three manager components talk to the store through the generated client. Each
  query the components build is a request; the client answers with \<open>{ data, error }\<close>.
  A handler is a function of the answers it receives: \<open>exec\<close> is the client, and the
  world records every request sent, in order, next to the state behind the client.
  A numeric form field is set by \<open>parseInt\<close>, from a stored integer or from a
  constant, so its value is an integer or \<open>NaN\<close> (\<open>None\<close>).

  The requests are the queries of the source:
  \<^item> \<open>Fetch_cursos\<close>: \<open>from('cursos').select('*').order('nome')\<close>;
  \<^item> \<open>Fetch_alunos\<close>: \<open>from('alunos').select('*').order('nome_completo')\<close>;
  \<^item> \<open>Fetch_matriculas\<close>: \<open>from('matriculas').select\<close> of all columns with the
    embedded student and course, ordered by \<open>ano_ingresso\<close> descending;
  \<^item> \<open>Fetch_alunos_ativos\<close>: the student query of the enrollment form, above;
  \<^item> \<open>Fetch_cursos_options\<close>: \<open>from('cursos').select('id, nome, codigo_curso').order('nome')\<close>;
  \<^item> \<open>Insert_curso f\<close>, \<open>Insert_aluno f\<close>, \<open>Insert_matricula f\<close>: \<open>insert(formData)\<close>;
  \<^item> \<open>Update_curso f i\<close>, \<open>Update_aluno f i\<close>: \<open>update(formData).eq('id', i)\<close>;
  \<^item> \<open>Update_aluno_status v i\<close>: \<open>update({ status: v }).eq('id', i)\<close>;
  \<^item> \<open>Delete_curso i\<close>, \<open>Delete_matricula i\<close>: \<open>delete().eq('id', i)\<close>.
\<close>

record curso_form =
  cf_nome :: string
  cf_codigo_curso :: string
  cf_duracao_semestres :: "int option"

record aluno_form =
  af_nome_completo :: string
  af_matricula :: string
  af_cpf :: string
  af_email :: string
  af_data_nascimento :: string
  af_telefone :: string
  af_status :: status_matricula

record matricula_form =
  mf_aluno_id :: string
  mf_curso_id :: string
  mf_ano_ingresso :: "int option"
  mf_semestre_ingresso :: "int option"

datatype request =
    Fetch_cursos
  | Fetch_alunos
  | Fetch_matriculas
  | Fetch_alunos_ativos
  | Fetch_cursos_options
  | Insert_curso curso_form
  | Update_curso curso_form uuid
  | Delete_curso uuid
  | Insert_aluno aluno_form
  | Update_aluno aluno_form uuid
  | Update_aluno_status status_matricula uuid
  | Insert_matricula matricula_form
  | Delete_matricula uuid

datatype rows =
    Curso_rows "curso list"
  | Aluno_rows "aluno list"
  | Matricula_rows "matricula_view list"
  | Aluno_options "aluno_option list"
  | Curso_options "curso_option list"

record api_error =
  message :: string
  instanceof_Error :: bool

record response =
  data :: "rows option"
  error :: "api_error option"

record 'b world =
  sent :: "request list"
  backend :: 'b

definition call ::
  "(request \<Rightarrow> 'b \<Rightarrow> response \<times> 'b) \<Rightarrow> request \<Rightarrow> 'b world \<Rightarrow> response \<times> 'b world" where
  "call exec req w =
     (case exec req (backend w) of
        (resp, b) \<Rightarrow> (resp, \<lparr>sent = sent w @ [req], backend = b\<rparr>))"

datatype toast_variant = default_variant | destructive

record toast =
  title :: string
  description :: "string option"
  variant :: toast_variant

text \<open>\<open>haystack.includes(needle)\<close> on strings.\<close>

fun starts_with :: "string \<Rightarrow> string \<Rightarrow> bool" where
  "starts_with s [] = True"
| "starts_with [] (c # cs) = False"
| "starts_with (x # xs) (c # cs) = (x = c \<and> starts_with xs cs)"

fun str_includes :: "string \<Rightarrow> string \<Rightarrow> bool" where
  "str_includes [] needle = (needle = [])"
| "str_includes (x # xs) needle = (starts_with (x # xs) needle \<or> str_includes xs needle)"

section \<open>Validation schemas\<close>

text \<open>
  A schema's \<open>parse\<close> visits the keys of the object in order and collects the issues;
  the result here is the list of their messages, empty when the value is accepted.
  The form values are typed, so only the checks below can raise an issue. A string's
  length counts its code units. \<open>\d\<close> is an ASCII digit, and \<open>^...$\<close> without flags
  spans the whole string. The pattern behind \<open>.email()\<close> belongs to the validation
  library and is a parameter.
\<close>

definition is_digit :: "char \<Rightarrow> bool" where
  "is_digit c = (c \<in> set ''0123456789'')"

definition matricula_regex :: "string \<Rightarrow> bool" where
  "matricula_regex s =
     (length s = 11 \<and> list_all is_digit (take 4 s) \<and> s ! 4 = CHR ''-'' \<and>
      (s ! 5 = CHR ''1'' \<or> s ! 5 = CHR ''2'') \<and> s ! 6 = CHR ''-'' \<and>
      list_all is_digit (drop 7 s))"

definition cpf_regex :: "string \<Rightarrow> bool" where
  "cpf_regex s =
     (length s = 14 \<and> list_all is_digit (take 3 s) \<and> s ! 3 = CHR ''.'' \<and>
      list_all is_digit (take 3 (drop 4 s)) \<and> s ! 7 = CHR ''.'' \<and>
      list_all is_digit (take 3 (drop 8 s)) \<and> s ! 11 = CHR ''-'' \<and>
      list_all is_digit (drop 12 s))"

definition z_string_min :: "nat \<Rightarrow> string \<Rightarrow> string \<Rightarrow> string list" where
  "z_string_min n msg v = (if length v < n then [msg] else [])"

definition z_string_regex :: "(string \<Rightarrow> bool) \<Rightarrow> string \<Rightarrow> string \<Rightarrow> string list" where
  "z_string_regex re msg v = (if re v then [] else [msg])"

definition z_number_min :: "int \<Rightarrow> string \<Rightarrow> int option \<Rightarrow> string list" where
  "z_number_min n msg v =
     (case v of
        None \<Rightarrow> [''Expected number, received nan'']
      | Some x \<Rightarrow> if x < n then [msg] else [])"

definition cursoSchema :: "curso_form \<Rightarrow> string list" where
  "cursoSchema f =
     z_string_min 3 (''Nome deve ter no m'' @ [CHR 0xED] @ ''nimo 3 caracteres'') (cf_nome f) @
     z_string_min 2 (''C'' @ [CHR 0xF3] @ ''digo deve ter no m'' @ [CHR 0xED] @ ''nimo 2 caracteres'')
       (cf_codigo_curso f) @
     z_number_min 1
       (''Dura'' @ [CHR 0xE7, CHR 0xE3] @ ''o deve ser no m'' @ [CHR 0xED] @ ''nimo 1 semestre'')
       (cf_duracao_semestres f)"

definition alunoSchema :: "(string \<Rightarrow> bool) \<Rightarrow> aluno_form \<Rightarrow> string list" where
  "alunoSchema email_regex f =
     z_string_min 3 (''Nome deve ter no m'' @ [CHR 0xED] @ ''nimo 3 caracteres'')
       (af_nome_completo f) @
     z_string_regex matricula_regex ''Formato: AAAA-S-NNNN (ex: 2025-1-1234)'' (af_matricula f) @
     z_string_regex cpf_regex ''Formato: XXX.XXX.XXX-XX'' (af_cpf f) @
     z_string_regex email_regex (''Email inv'' @ [CHR 0xE1] @ ''lido'') (af_email f)"

definition validation_toast :: "string \<Rightarrow> toast" where
  "validation_toast msg =
     \<lparr>title = ''Erro de valida'' @ [CHR 0xE7, CHR 0xE3] @ ''o'', description = Some msg,
      variant = destructive\<rparr>"

definition success_toast :: "string \<Rightarrow> toast" where
  "success_toast t = \<lparr>title = t, description = None, variant = default_variant\<rparr>"

definition save_error_toast :: "string \<Rightarrow> api_error \<Rightarrow> toast" where
  "save_error_toast t e =
     \<lparr>title = t,
      description = Some (if instanceof_Error e then message e else ''Erro desconhecido''),
      variant = destructive\<rparr>"

section \<open>CursosManager\<close>

record cursos_manager =
  cm_cursos :: "curso list"
  cm_isDialogOpen :: bool
  cm_editingCurso :: "curso option"
  cm_formData :: curso_form
  cm_toasts :: "toast list"

definition cm_toast :: "toast \<Rightarrow> cursos_manager \<Rightarrow> cursos_manager" where
  "cm_toast t ui = ui\<lparr>cm_toasts := cm_toasts ui @ [t]\<rparr>"

definition cm_fetchCursos ::
  "(request \<Rightarrow> 'b \<Rightarrow> response \<times> 'b) \<Rightarrow> 'b world \<Rightarrow> cursos_manager
     \<Rightarrow> 'b world \<times> cursos_manager" where
  "cm_fetchCursos exec w ui =
     (case call exec Fetch_cursos w of
        (resp, w') \<Rightarrow>
          (w', case (error resp, data resp) of
                 (None, Some (Curso_rows rs)) \<Rightarrow> ui\<lparr>cm_cursos := rs\<rparr>
               | _ \<Rightarrow> ui))"

definition cm_resetForm :: "cursos_manager \<Rightarrow> cursos_manager" where
  "cm_resetForm ui =
     ui\<lparr>cm_formData := \<lparr>cf_nome = [], cf_codigo_curso = [], cf_duracao_semestres = Some 8\<rparr>,
        cm_editingCurso := None\<rparr>"

definition cm_openEditDialog :: "curso \<Rightarrow> cursos_manager \<Rightarrow> cursos_manager" where
  "cm_openEditDialog c ui =
     ui\<lparr>cm_editingCurso := Some c,
        cm_formData := \<lparr>cf_nome = c_nome c, cf_codigo_curso = c_codigo_curso c,
                         cf_duracao_semestres = Some (sint (c_duracao_semestres c))\<rparr>,
        cm_isDialogOpen := True\<rparr>"

definition cm_saved ::
  "(request \<Rightarrow> 'b \<Rightarrow> response \<times> 'b) \<Rightarrow> string \<Rightarrow> response \<times> 'b world \<Rightarrow> cursos_manager
     \<Rightarrow> 'b world \<times> cursos_manager" where
  "cm_saved exec done_title answer ui =
     (case answer of
        (resp, w1) \<Rightarrow>
          (case error resp of
             Some e \<Rightarrow> (w1, cm_toast (save_error_toast ''Erro ao salvar curso'' e) ui)
           | None \<Rightarrow>
               cm_fetchCursos exec w1
                 (cm_resetForm ((cm_toast (success_toast done_title) ui)\<lparr>cm_isDialogOpen := False\<rparr>))))"

definition cm_handleSubmit ::
  "(request \<Rightarrow> 'b \<Rightarrow> response \<times> 'b) \<Rightarrow> 'b world \<Rightarrow> cursos_manager
     \<Rightarrow> 'b world \<times> cursos_manager" where
  "cm_handleSubmit exec w ui =
     (case cursoSchema (cm_formData ui) of
        msg # _ \<Rightarrow> (w, cm_toast (validation_toast msg) ui)
      | [] \<Rightarrow>
          (case cm_editingCurso ui of
             Some c \<Rightarrow>
               cm_saved exec ''Curso atualizado com sucesso!''
                 (call exec (Update_curso (cm_formData ui) (c_id c)) w) ui
           | None \<Rightarrow>
               cm_saved exec ''Curso cadastrado com sucesso!''
                 (call exec (Insert_curso (cm_formData ui)) w) ui))"

definition cm_handleDelete ::
  "(request \<Rightarrow> 'b \<Rightarrow> response \<times> 'b) \<Rightarrow> bool \<Rightarrow> uuid \<Rightarrow> 'b world \<Rightarrow> cursos_manager
     \<Rightarrow> 'b world \<times> cursos_manager" where
  "cm_handleDelete exec confirm ident w ui =
     (if \<not> confirm then (w, ui)
      else case call exec (Delete_curso ident) w of
             (resp, w1) \<Rightarrow>
               (case error resp of
                  None \<Rightarrow>
                    cm_fetchCursos exec w1
                      (cm_toast (success_toast (''Curso exclu'' @ [CHR 0xED] @ ''do com sucesso!'')) ui)
                | Some e \<Rightarrow>
                    (w1, cm_toast \<lparr>title = ''Erro ao excluir curso'',
                                   description = Some ''Pode haver alunos matriculados neste curso'',
                                   variant = destructive\<rparr> ui)))"

section \<open>AlunosManager\<close>

record alunos_manager =
  am_alunos :: "aluno list"
  am_searchTerm :: string
  am_isDialogOpen :: bool
  am_editingAluno :: "aluno option"
  am_formData :: aluno_form
  am_toasts :: "toast list"

definition am_toast :: "toast \<Rightarrow> alunos_manager \<Rightarrow> alunos_manager" where
  "am_toast t ui = ui\<lparr>am_toasts := am_toasts ui @ [t]\<rparr>"

definition am_fetchAlunos ::
  "(request \<Rightarrow> 'b \<Rightarrow> response \<times> 'b) \<Rightarrow> 'b world \<Rightarrow> alunos_manager
     \<Rightarrow> 'b world \<times> alunos_manager" where
  "am_fetchAlunos exec w ui =
     (case call exec Fetch_alunos w of
        (resp, w') \<Rightarrow>
          (w', case (error resp, data resp) of
                 (None, Some (Aluno_rows rs)) \<Rightarrow> ui\<lparr>am_alunos := rs\<rparr>
               | _ \<Rightarrow> ui))"

definition am_resetForm :: "alunos_manager \<Rightarrow> alunos_manager" where
  "am_resetForm ui =
     ui\<lparr>am_formData := \<lparr>af_nome_completo = [], af_matricula = [], af_cpf = [],
                         af_email = [], af_data_nascimento = [], af_telefone = [],
                         af_status = ATIVO\<rparr>,
        am_editingAluno := None\<rparr>"

definition am_openEditDialog :: "aluno \<Rightarrow> alunos_manager \<Rightarrow> alunos_manager" where
  "am_openEditDialog a ui =
     ui\<lparr>am_editingAluno := Some a,
        am_formData := \<lparr>af_nome_completo = a_nome_completo a, af_matricula = a_matricula a,
                         af_cpf = a_cpf a, af_email = a_email a,
                         af_data_nascimento = a_data_nascimento a,
                         af_telefone = (case a_telefone a of None \<Rightarrow> [] | Some t \<Rightarrow> t),
                         af_status = a_status a\<rparr>,
        am_isDialogOpen := True\<rparr>"

definition am_saved ::
  "(request \<Rightarrow> 'b \<Rightarrow> response \<times> 'b) \<Rightarrow> string \<Rightarrow> response \<times> 'b world \<Rightarrow> alunos_manager
     \<Rightarrow> 'b world \<times> alunos_manager" where
  "am_saved exec done_title answer ui =
     (case answer of
        (resp, w1) \<Rightarrow>
          (case error resp of
             Some e \<Rightarrow> (w1, am_toast (save_error_toast ''Erro ao salvar aluno'' e) ui)
           | None \<Rightarrow>
               am_fetchAlunos exec w1
                 (am_resetForm ((am_toast (success_toast done_title) ui)\<lparr>am_isDialogOpen := False\<rparr>))))"

definition am_handleSubmit ::
  "(string \<Rightarrow> bool) \<Rightarrow> (request \<Rightarrow> 'b \<Rightarrow> response \<times> 'b) \<Rightarrow> 'b world \<Rightarrow> alunos_manager
     \<Rightarrow> 'b world \<times> alunos_manager" where
  "am_handleSubmit email_regex exec w ui =
     (case alunoSchema email_regex (am_formData ui) of
        msg # _ \<Rightarrow> (w, am_toast (validation_toast msg) ui)
      | [] \<Rightarrow>
          (case am_editingAluno ui of
             Some a \<Rightarrow>
               am_saved exec ''Aluno atualizado com sucesso!''
                 (call exec (Update_aluno (am_formData ui) (a_id a)) w) ui
           | None \<Rightarrow>
               am_saved exec ''Aluno cadastrado com sucesso!''
                 (call exec (Insert_aluno (am_formData ui)) w) ui))"

definition am_handleDelete ::
  "(request \<Rightarrow> 'b \<Rightarrow> response \<times> 'b) \<Rightarrow> bool \<Rightarrow> uuid \<Rightarrow> 'b world \<Rightarrow> alunos_manager
     \<Rightarrow> 'b world \<times> alunos_manager" where
  "am_handleDelete exec confirm ident w ui =
     (if \<not> confirm then (w, ui)
      else case call exec (Update_aluno_status INATIVO ident) w of
             (resp, w1) \<Rightarrow>
               (case error resp of
                  None \<Rightarrow>
                    am_fetchAlunos exec w1
                      (am_toast (success_toast ''Aluno desativado com sucesso!'') ui)
                | Some e \<Rightarrow> (w1, ui)))"

section \<open>MatriculasManager\<close>

record matriculas_manager =
  mm_matriculas :: "matricula_view list"
  mm_alunos :: "aluno_option list"
  mm_cursos :: "curso_option list"
  mm_isDialogOpen :: bool
  mm_formData :: matricula_form
  mm_toasts :: "toast list"

definition mm_toast :: "toast \<Rightarrow> matriculas_manager \<Rightarrow> matriculas_manager" where
  "mm_toast t ui = ui\<lparr>mm_toasts := mm_toasts ui @ [t]\<rparr>"

definition mm_fetchMatriculas ::
  "(request \<Rightarrow> 'b \<Rightarrow> response \<times> 'b) \<Rightarrow> 'b world \<Rightarrow> matriculas_manager
     \<Rightarrow> 'b world \<times> matriculas_manager" where
  "mm_fetchMatriculas exec w ui =
     (case call exec Fetch_matriculas w of
        (resp, w') \<Rightarrow>
          (w', case (error resp, data resp) of
                 (None, Some (Matricula_rows rs)) \<Rightarrow> ui\<lparr>mm_matriculas := rs\<rparr>
               | _ \<Rightarrow> ui))"

definition mm_fetchAlunos ::
  "(request \<Rightarrow> 'b \<Rightarrow> response \<times> 'b) \<Rightarrow> 'b world \<Rightarrow> matriculas_manager
     \<Rightarrow> 'b world \<times> matriculas_manager" where
  "mm_fetchAlunos exec w ui =
     (case call exec Fetch_alunos_ativos w of
        (resp, w') \<Rightarrow>
          (w', case data resp of
                 Some (Aluno_options rs) \<Rightarrow> ui\<lparr>mm_alunos := rs\<rparr>
               | _ \<Rightarrow> ui))"

definition mm_fetchCursos ::
  "(request \<Rightarrow> 'b \<Rightarrow> response \<times> 'b) \<Rightarrow> 'b world \<Rightarrow> matriculas_manager
     \<Rightarrow> 'b world \<times> matriculas_manager" where
  "mm_fetchCursos exec w ui =
     (case call exec Fetch_cursos_options w of
        (resp, w') \<Rightarrow>
          (w', case data resp of
                 Some (Curso_options rs) \<Rightarrow> ui\<lparr>mm_cursos := rs\<rparr>
               | _ \<Rightarrow> ui))"

text \<open>\<open>year\<close> is \<open>new Date().getFullYear()\<close> at the time of the reset.\<close>

definition mm_resetForm :: "int \<Rightarrow> matriculas_manager \<Rightarrow> matriculas_manager" where
  "mm_resetForm year ui =
     ui\<lparr>mm_formData := \<lparr>mf_aluno_id = [], mf_curso_id = [], mf_ano_ingresso = Some year,
                         mf_semestre_ingresso = Some 1\<rparr>\<rparr>"

definition mm_handleSubmit ::
  "(request \<Rightarrow> 'b \<Rightarrow> response \<times> 'b) \<Rightarrow> int \<Rightarrow> 'b world \<Rightarrow> matriculas_manager
     \<Rightarrow> 'b world \<times> matriculas_manager" where
  "mm_handleSubmit exec year w ui =
     (case call exec (Insert_matricula (mm_formData ui)) w of
        (resp, w1) \<Rightarrow>
          (case error resp of
             None \<Rightarrow>
               mm_fetchMatriculas exec w1
                 (mm_resetForm year
                    ((mm_toast (success_toast (''Matr'' @ [CHR 0xED] @ ''cula realizada com sucesso!'')) ui)
                       \<lparr>mm_isDialogOpen := False\<rparr>))
           | Some e \<Rightarrow>
               (w1, mm_toast
                      \<lparr>title = ''Erro ao matricular'',
                       description =
                         Some (if str_includes (message e) ''duplicate''
                               then ''Aluno j'' @ [CHR 0xE1] @ '' est'' @ [CHR 0xE1] @
                                    '' matriculado neste curso''
                               else message e),
                       variant = destructive\<rparr> ui)))"

definition mm_handleDelete ::
  "(request \<Rightarrow> 'b \<Rightarrow> response \<times> 'b) \<Rightarrow> bool \<Rightarrow> uuid \<Rightarrow> 'b world \<Rightarrow> matriculas_manager
     \<Rightarrow> 'b world \<times> matriculas_manager" where
  "mm_handleDelete exec confirm ident w ui =
     (if \<not> confirm then (w, ui)
      else case call exec (Delete_matricula ident) w of
             (resp, w1) \<Rightarrow>
               (case error resp of
                  None \<Rightarrow>
                    mm_fetchMatriculas exec w1
                      (mm_toast
                         (success_toast (''Matr'' @ [CHR 0xED] @ ''cula exclu'' @ [CHR 0xED] @
                                         ''da com sucesso!'')) ui)
                | Some e \<Rightarrow> (w1, ui)))"

text \<open>
  The student \<open>Select\<close> of the form renders one item per fetched student, its value the
  student's id; choosing an item stores that value in the form.
\<close>

definition mm_aluno_items :: "matriculas_manager \<Rightarrow> (string \<times> string) list" where
  "mm_aluno_items ui =
     map (\<lambda>a. (ao_id a, ao_nome_completo a @ '' - '' @ ao_matricula a)) (mm_alunos ui)"

definition mm_onValueChange_aluno :: "string \<Rightarrow> matriculas_manager \<Rightarrow> matriculas_manager" where
  "mm_onValueChange_aluno v ui = ui\<lparr>mm_formData := (mm_formData ui)\<lparr>mf_aluno_id := v\<rparr>\<rparr>"

definition mm_onValueChange_curso :: "string \<Rightarrow> matriculas_manager \<Rightarrow> matriculas_manager" where
  "mm_onValueChange_curso v ui = ui\<lparr>mm_formData := (mm_formData ui)\<lparr>mf_curso_id := v\<rparr>\<rparr>"

text \<open>The duration a request carries, when it is an insert or an update of a course.\<close>

definition carries_duracao :: "request \<Rightarrow> int option option" where
  "carries_duracao req =
     (case req of
        Insert_curso f \<Rightarrow> Some (cf_duracao_semestres f)
      | Update_curso f i \<Rightarrow> Some (cf_duracao_semestres f)
      | _ \<Rightarrow> None)"

section \<open>Initial component state\<close>

text \<open>
  The \<open>useState\<close> initial values of the three components; \<open>year\<close> is
  \<open>new Date().getFullYear()\<close> when MatriculasManager mounts.
\<close>

definition cm_initial :: cursos_manager where
  "cm_initial =
     \<lparr>cm_cursos = [], cm_isDialogOpen = False, cm_editingCurso = None,
      cm_formData = \<lparr>cf_nome = [], cf_codigo_curso = [], cf_duracao_semestres = Some 8\<rparr>,
      cm_toasts = []\<rparr>"

definition am_initial :: alunos_manager where
  "am_initial =
     \<lparr>am_alunos = [], am_searchTerm = [], am_isDialogOpen = False, am_editingAluno = None,
      am_formData = \<lparr>af_nome_completo = [], af_matricula = [], af_cpf = [], af_email = [],
                      af_data_nascimento = [], af_telefone = [], af_status = ATIVO\<rparr>,
      am_toasts = []\<rparr>"

definition mm_initial :: "int \<Rightarrow> matriculas_manager" where
  "mm_initial year =
     \<lparr>mm_matriculas = [], mm_alunos = [], mm_cursos = [], mm_isDialogOpen = False,
      mm_formData = \<lparr>mf_aluno_id = [], mf_curso_id = [], mf_ano_ingresso = Some year,
                      mf_semestre_ingresso = Some 1\<rparr>,
      mm_toasts = []\<rparr>"

section \<open>Successive updates\<close>

text \<open>
  Row \<open>i\<close> of a table is updated twice: it is a target of a first statement (its
  \<open>WHERE\<close> predicate and the policies on the table before) and, in the table that
  statement left, of a second one.
\<close>

definition updated_twice ::
  "('r \<Rightarrow> bool) \<Rightarrow> ('r \<Rightarrow> bool) \<Rightarrow> ('r \<Rightarrow> bool) \<Rightarrow> ('r \<Rightarrow> bool) \<Rightarrow> 'r list \<Rightarrow> 'r list \<Rightarrow> nat \<Rightarrow> bool" where
  "updated_twice wh1 rls1 wh2 rls2 rows rows1 i =
     (i < length rows \<and> wh1 (rows ! i) \<and> rls1 (rows ! i) \<and> wh2 (rows1 ! i) \<and> rls2 (rows1 ! i))"

section \<open>Example data\<close>

text \<open>
  A small store used to run the definitions: an administrator and a reader, one
  course, two students (one active, one inactive) and one enrollment.
\<close>

definition ana :: auth_user where
  "ana = \<lparr>u_id = ''u-ana'', u_email = Some ''ana@example.org'',
          u_raw_user_meta_data = [(''nome_completo'', ''Ana Souza'')]\<rparr>"

definition rui :: auth_user where
  "rui = \<lparr>u_id = ''u-rui'', u_email = Some ''rui@example.org'', u_raw_user_meta_data = []\<rparr>"

definition ana_profile :: profile where
  "ana_profile = \<lparr>p_id = ''u-ana'', p_nome_completo = ''Ana Souza'',
                  p_email = ''ana@example.org'', p_created_at = 100, p_updated_at = 100\<rparr>"

definition rui_profile :: profile where
  "rui_profile = \<lparr>p_id = ''u-rui'', p_nome_completo = usuario,
                  p_email = ''rui@example.org'', p_created_at = 100, p_updated_at = 100\<rparr>"

definition eng_sw :: curso where
  "eng_sw = \<lparr>c_id = ''c-1'', c_nome = ''Engenharia de Software'', c_codigo_curso = ''ENG-SW'',
             c_duracao_semestres = 8, c_created_at = 100, c_updated_at = 100\<rparr>"

definition bia :: aluno where
  "bia = \<lparr>a_id = ''a-1'', a_nome_completo = ''Bia Lima'', a_matricula = ''2025-1-0001'',
          a_cpf = ''111.222.333-44'', a_email = ''bia@example.org'',
          a_data_nascimento = ''2000-01-31'', a_telefone = None, a_status = ATIVO,
          a_created_at = 100, a_updated_at = 100\<rparr>"

definition caio :: aluno where
  "caio = \<lparr>a_id = ''a-2'', a_nome_completo = ''Caio Reis'', a_matricula = ''2024-2-0007'',
           a_cpf = ''555.666.777-88'', a_email = ''caio@example.org'',
           a_data_nascimento = ''1999-12-01'', a_telefone = Some ''5511999990000'',
           a_status = INATIVO, a_created_at = 100, a_updated_at = 100\<rparr>"

definition bia_eng_sw :: matricula where
  "bia_eng_sw = \<lparr>m_id = ''m-1'', m_aluno_id = ''a-1'', m_curso_id = ''c-1'',
                 m_ano_ingresso = 2025, m_semestre_ingresso = 1, m_data_matricula = 100\<rparr>"

definition campus :: store where
  "campus =
     \<lparr>users = [ana, rui],
      profiles = [ana_profile, rui_profile],
      user_roles =
        [\<lparr>ur_id = ''r-1'', ur_user_id = ''u-ana'', ur_role = admin, ur_created_at = 100\<rparr>,
         \<lparr>ur_id = ''r-2'', ur_user_id = ''u-rui'', ur_role = leitor, ur_created_at = 100\<rparr>],
      cursos = [eng_sw],
      alunos = [bia, caio],
      matriculas = [bia_eng_sw]\<rparr>"


definition direito :: curso where
  "direito = \<lparr>c_id = ''c-2'', c_nome = ''Direito'', c_codigo_curso = ''DIR'',
              c_duracao_semestres = 0, c_created_at = 200, c_updated_at = 200\<rparr>"

text \<open>A client that answers every request with the same error, and one that never errs.\<close>

definition refusing :: "string \<Rightarrow> request \<Rightarrow> nat \<Rightarrow> response \<times> nat" where
  "refusing msg req n =
     (\<lparr>data = None, error = Some \<lparr>message = msg, instanceof_Error = True\<rparr>\<rparr>, Suc n)"

definition accepting :: "request \<Rightarrow> nat \<Rightarrow> response \<times> nat" where
  "accepting req n = (\<lparr>data = None, error = None\<rparr>, Suc n)"

text \<open>A collation: code-point order.\<close>

fun codepoint_le :: "string \<Rightarrow> string \<Rightarrow> bool" where
  "codepoint_le [] ys = True"
| "codepoint_le (x # xs) [] = False"
| "codepoint_le (x # xs) (y # ys) =
     ((of_char x :: nat) < of_char y \<or> (x = y \<and> codepoint_le xs ys))"

text \<open>
  A client whose answer to the enrollment form's student query is what the store given
  to it returns to the administrator.
\<close>

definition ana_client :: "store \<Rightarrow> request \<Rightarrow> nat \<Rightarrow> response \<times> nat" where
  "ana_client st req n =
     (case req of
        Fetch_alunos_ativos \<Rightarrow>
          \<lparr>data = Some (Aluno_options
                          (select_alunos_ativos codepoint_le st (Authenticated ''u-ana''))),
           error = None\<rparr>
      | _ \<Rightarrow> \<lparr>data = None, error = None\<rparr>,
      Suc n)"

section \<open>Statements: general facts\<close>

text \<open>
  A successful \<open>UPDATE\<close> has replaced exactly the targeted rows, in place; one that
  targets no row changes nothing.
\<close>

lemma update_rows_result:
  "update_rows tgt new chk denied viol done rows = Inr out
     \<Longrightarrow> out = done @ map (\<lambda>r. if tgt r then new r else r) rows"
proof (induction rows arbitrary: "done")
  case Nil
  then show ?case by simp
next
  case (Cons r rs)
  show ?case
  proof (cases "tgt r")
    case True
    with Cons.prems have "update_rows tgt new chk denied viol (done @ [new r]) rs = Inr out"
      by (simp add: Let_def split: if_splits option.splits)
    from Cons.IH [OF this] True show ?thesis by simp
  next
    case False
    with Cons.prems have "update_rows tgt new chk denied viol (done @ [r]) rs = Inr out"
      by simp
    from Cons.IH [OF this] False show ?thesis by simp
  qed
qed

lemma update_rows_untargeted:
  "\<forall>r \<in> set rows. \<not> tgt r
     \<Longrightarrow> update_rows tgt new chk denied viol done rows = Inr (done @ rows)"
  by (induction rows arbitrary: "done") auto

section \<open>Writes without the admin role\<close>

lemma not_admin_permits_user_roles:
  "\<not> has_role st (auth_uid s) admin \<Longrightarrow> cmd \<noteq> SELECT
     \<Longrightarrow> \<not> rls_permits policies_user_roles st s cmd r"
  by (auto simp: rls_permits_def policies_user_roles_def applies_def)

lemma not_admin_permits_cursos:
  "\<not> has_role st (auth_uid s) admin \<Longrightarrow> cmd \<noteq> SELECT
     \<Longrightarrow> \<not> rls_permits policies_cursos st s cmd r"
  by (auto simp: rls_permits_def policies_cursos_def applies_def)

lemma not_admin_permits_alunos:
  "\<not> has_role st (auth_uid s) admin \<Longrightarrow> cmd \<noteq> SELECT
     \<Longrightarrow> \<not> rls_permits policies_alunos st s cmd r"
  by (auto simp: rls_permits_def policies_alunos_def applies_def)

lemma not_admin_permits_matriculas:
  "\<not> has_role st (auth_uid s) admin \<Longrightarrow> cmd \<noteq> SELECT
     \<Longrightarrow> \<not> rls_permits policies_matriculas st s cmd r"
  by (auto simp: rls_permits_def policies_matriculas_def applies_def)

lemma not_admin_user_roles:
  assumes "\<not> has_role st (auth_uid s) admin"
  shows "insert_user_roles st s n = Inl (Insufficient_privilege User_roles)"
    and "update_user_roles st s wh set_clause = Inr st"
    and "delete_user_roles st s wh = Inr st"
  using assms
  by (simp_all add: insert_user_roles_def update_user_roles_def delete_user_roles_def
      insert_row_def with_rows_def rls_target_def not_admin_permits_user_roles
      update_rows_untargeted)

lemma not_admin_cursos:
  assumes "\<not> has_role st (auth_uid s) admin"
  shows "insert_cursos st s n = Inl (Insufficient_privilege Cursos)"
    and "update_cursos st s now wh set_clause = Inr st"
    and "delete_cursos st s wh = Inr st"
  using assms
  by (simp_all add: insert_cursos_def update_cursos_def delete_cursos_def insert_row_def
      with_rows_def rls_target_def not_admin_permits_cursos update_rows_untargeted)

lemma not_admin_alunos:
  assumes "\<not> has_role st (auth_uid s) admin"
  shows "insert_alunos st s n = Inl (Insufficient_privilege Alunos)"
    and "update_alunos st s now wh set_clause = Inr st"
    and "delete_alunos st s wh = Inr st"
  using assms
  by (simp_all add: insert_alunos_def update_alunos_def delete_alunos_def insert_row_def
      with_rows_def rls_target_def not_admin_permits_alunos update_rows_untargeted)

lemma not_admin_matriculas:
  assumes "\<not> has_role st (auth_uid s) admin"
  shows "insert_matriculas st s n = Inl (Insufficient_privilege Matriculas)"
    and "update_matriculas st s wh set_clause = Inr st"
    and "delete_matriculas st s wh = Inr st"
  using assms
  by (simp_all add: insert_matriculas_def update_matriculas_def delete_matriculas_def
      insert_row_def with_rows_def rls_target_def not_admin_permits_matriculas
      update_rows_untargeted)

text \<open>
  Claim C1. A session that does not hold the admin role (the \<open>anon\<close> role included)
  cannot change user_roles, cursos, alunos or matriculas: an insert is refused by the
  policy check on the new row, and an update or a delete, whatever its \<open>WHERE\<close> and
  \<open>SET\<close> clauses, finds no row it may touch and leaves the store as it was. The
  statements are those of the store itself, so no client code path is assumed.
\<close>

theorem non_admin_writes_denied:
  assumes "\<not> has_role st (auth_uid s) admin"
  shows "insert_user_roles st s ur = Inl (Insufficient_privilege User_roles) \<and>
         update_user_roles st s wh_ur set_ur = Inr st \<and>
         delete_user_roles st s wh_ur = Inr st \<and>
         insert_cursos st s c = Inl (Insufficient_privilege Cursos) \<and>
         update_cursos st s now wh_c set_c = Inr st \<and>
         delete_cursos st s wh_c = Inr st \<and>
         insert_alunos st s a = Inl (Insufficient_privilege Alunos) \<and>
         update_alunos st s now wh_a set_a = Inr st \<and>
         delete_alunos st s wh_a = Inr st \<and>
         insert_matriculas st s m = Inl (Insufficient_privilege Matriculas) \<and>
         update_matriculas st s wh_m set_m = Inr st \<and>
         delete_matriculas st s wh_m = Inr st"
  using not_admin_user_roles [OF assms] not_admin_cursos [OF assms]
    not_admin_alunos [OF assms] not_admin_matriculas [OF assms]
  by simp

lemma rui_not_admin: "\<not> has_role campus (auth_uid (Authenticated ''u-rui'')) admin"
  by (simp add: has_role_def campus_def)

lemma ana_admin: "has_role campus (auth_uid (Authenticated ''u-ana'')) admin"
  by (simp add: has_role_def campus_def)

theorem non_admin_writes_denied_witness:
  "\<not> has_role campus (auth_uid (Authenticated ''u-rui'')) admin \<and>
   insert_cursos campus (Authenticated ''u-rui'') direito = Inl (Insufficient_privilege Cursos) \<and>
   update_cursos campus (Authenticated ''u-rui'') 300 (\<lambda>r. c_id r = ''c-1'')
     (\<lambda>r. r\<lparr>c_duracao_semestres := 10\<rparr>) = Inr campus \<and>
   delete_cursos campus (Authenticated ''u-rui'') (\<lambda>r. c_id r = ''c-1'') = Inr campus \<and>
   delete_matriculas campus (Authenticated ''u-rui'') (\<lambda>r. m_id r = ''m-1'') = Inr campus \<and>
   update_alunos campus (Authenticated ''u-rui'') 300 (\<lambda>r. a_id r = ''a-1'')
     (\<lambda>r. r\<lparr>a_status := INATIVO\<rparr>) = Inr campus \<and>
   insert_user_roles campus (Authenticated ''u-rui'')
     \<lparr>ur_id = ''r-3'', ur_user_id = ''u-rui'', ur_role = admin, ur_created_at = 300\<rparr>
     = Inl (Insufficient_privilege User_roles)"
  using non_admin_writes_denied [OF rui_not_admin] rui_not_admin
  by simp


section \<open>Profiles\<close>

lemma profiles_select_iff:
  "rls_permits policies_profiles st (Authenticated u) SELECT p
     = (p_id p = u \<or> has_role st (Some u) admin)"
  by (auto simp: rls_permits_def policies_profiles_def applies_def)

lemma profiles_update_iff:
  "rls_target policies_profiles st (Authenticated u) UPDATE p = (p_id p = u)"
  by (auto simp: rls_target_def rls_permits_def policies_profiles_def applies_def)

lemma profiles_no_insert: "\<not> rls_permits policies_profiles st s INSERT p"
  by (simp add: rls_permits_def policies_profiles_def applies_def)

lemma profiles_no_delete: "\<not> rls_permits policies_profiles st s DELETE p"
  by (simp add: rls_permits_def policies_profiles_def applies_def)

lemma insert_profiles_denied:
  "insert_profiles st s n = Inl (Insufficient_privilege Profiles)"
  by (simp add: insert_profiles_def insert_row_def with_rows_def profiles_no_insert)

lemma delete_profiles_denied: "delete_profiles st s wh = Inr st"
  by (simp add: delete_profiles_def rls_target_def profiles_no_delete)

lemma update_profiles_rows:
  assumes "update_profiles st s now wh set_clause = Inr st'"
  shows "profiles st' =
           map (\<lambda>r. if wh r \<and> rls_target policies_profiles st s UPDATE r
                     then (set_clause r)\<lparr>p_updated_at := now\<rparr> else r) (profiles st)"
proof -
  from assms obtain rows where
    r: "update_rows (\<lambda>r. wh r \<and> rls_target policies_profiles st s UPDATE r)
          (\<lambda>r. update_profiles_updated_at now (set_clause r))
          (rls_target policies_profiles st s UPDATE) (Insufficient_privilege Profiles)
          (\<lambda>others old n. or_else (profiles_constraints st others n) (profiles_referenced st old n))
          [] (profiles st) = Inr rows"
    and st': "st' = st\<lparr>profiles := rows\<rparr>"
    by (auto simp: update_profiles_def with_rows_def split: sum.splits)
  from update_rows_result [OF r] st' show ?thesis
    by (simp add: update_profiles_updated_at_def)
qed

text \<open>
  Claim C4. For a signed-in user \<open>u\<close> and a profile row \<open>p\<close>: the policies let \<open>u\<close>
  read \<open>p\<close> exactly when \<open>p\<close> is their own or \<open>u\<close> holds the admin role; they let \<open>u\<close>
  update \<open>p\<close> exactly when \<open>p\<close> is their own, so an update statement of \<open>u\<close>, admin or
  not, rewrites only rows whose id is \<open>u\<close>; and no session can insert or delete a
  profile row: an insert is refused and a delete removes nothing.
\<close>

theorem profile_access:
  "(rls_permits policies_profiles st (Authenticated u) SELECT p
      \<longleftrightarrow> p_id p = u \<or> has_role st (Some u) admin) \<and>
   (rls_target policies_profiles st (Authenticated u) UPDATE p \<longleftrightarrow> p_id p = u) \<and>
   (update_profiles st (Authenticated u) now wh set_clause = Inr st' \<longrightarrow>
      profiles st' = map (\<lambda>r. if wh r \<and> p_id r = u
                               then (set_clause r)\<lparr>p_updated_at := now\<rparr> else r) (profiles st)) \<and>
   insert_profiles st s n = Inl (Insufficient_privilege Profiles) \<and>
   delete_profiles st s wh' = Inr st"
  using update_profiles_rows [of st "Authenticated u" now wh set_clause st']
  by (simp add: profiles_select_iff profiles_update_iff insert_profiles_denied
      delete_profiles_denied)


lemma campus_update_ana:
  "update_profiles campus (Authenticated ''u-ana'') 300 (\<lambda>r. True)
       (\<lambda>r. r\<lparr>p_nome_completo := ''Ana S.''\<rparr>)
     = Inr (campus\<lparr>profiles := [ana_profile\<lparr>p_nome_completo := ''Ana S.'', p_updated_at := 300\<rparr>,
                                  rui_profile]\<rparr>)"
  by (simp add: update_profiles_def with_rows_def profiles_update_iff campus_def
        update_profiles_updated_at_def or_else_def profiles_constraints_def
        profiles_referenced_def ana_def rui_def ana_profile_def rui_profile_def)


theorem profile_access_witness:
  "rls_permits policies_profiles campus (Authenticated ''u-ana'') SELECT rui_profile \<and>
   \<not> rls_target policies_profiles campus (Authenticated ''u-ana'') UPDATE rui_profile \<and>
   update_profiles campus (Authenticated ''u-ana'') 300 (\<lambda>r. True)
       (\<lambda>r. r\<lparr>p_nome_completo := ''Ana S.''\<rparr>)
     = Inr (campus\<lparr>profiles := [ana_profile\<lparr>p_nome_completo := ''Ana S.'', p_updated_at := 300\<rparr>,
                                  rui_profile]\<rparr>) \<and>
   insert_profiles campus (Authenticated ''u-ana'') rui_profile
     = Inl (Insufficient_privilege Profiles) \<and>
   delete_profiles campus (Authenticated ''u-ana'') (\<lambda>r. True) = Inr campus \<and>
   profiles (campus\<lparr>profiles := [ana_profile\<lparr>p_nome_completo := ''Ana S.'', p_updated_at := 300\<rparr>,
                                  rui_profile]\<rparr>)
     = map (\<lambda>r. if True \<and> p_id r = ''u-ana''
                  then (r\<lparr>p_nome_completo := ''Ana S.''\<rparr>)\<lparr>p_updated_at := 300\<rparr> else r)
         (profiles campus)"
proof -
  have ana: "has_role campus (Some ''u-ana'') admin"
    by (simp add: has_role_def campus_def)
  have rui: "p_id rui_profile \<noteq> ''u-ana''"
    by (simp add: rui_profile_def)
  note fact = profile_access [of campus "''u-ana''" rui_profile 300 "\<lambda>r. True"
      "\<lambda>r. r\<lparr>p_nome_completo := ''Ana S.''\<rparr>"
      "campus\<lparr>profiles := [ana_profile\<lparr>p_nome_completo := ''Ana S.'', p_updated_at := 300\<rparr>,
                                  rui_profile]\<rparr>"
      "Authenticated ''u-ana''" rui_profile "\<lambda>r. True"]
  from fact have sel: "rls_permits policies_profiles campus (Authenticated ''u-ana'') SELECT rui_profile"
    using ana by blast
  from fact have upd: "\<not> rls_target policies_profiles campus (Authenticated ''u-ana'') UPDATE rui_profile"
    using rui by blast
  from fact have ins: "insert_profiles campus (Authenticated ''u-ana'') rui_profile
     = Inl (Insufficient_privilege Profiles)" by blast
  from fact have del: "delete_profiles campus (Authenticated ''u-ana'') (\<lambda>r. True) = Inr campus"
    by blast
  from fact campus_update_ana have rows:
    "profiles (campus\<lparr>profiles := [ana_profile\<lparr>p_nome_completo := ''Ana S.'', p_updated_at := 300\<rparr>,
                                  rui_profile]\<rparr>)
     = map (\<lambda>r. if True \<and> p_id r = ''u-ana''
                  then (r\<lparr>p_nome_completo := ''Ana S.''\<rparr>)\<lparr>p_updated_at := 300\<rparr> else r)
         (profiles campus)"
    by blast
  from sel upd ins del rows campus_update_ana show ?thesis by blast
qed


section \<open>Deleting a course\<close>

lemma admin_permits_cursos:
  "has_role st (auth_uid s) admin \<Longrightarrow> rls_permits policies_cursos st s cmd r"
  by (simp add: rls_permits_def policies_cursos_def applies_def)

lemma admin_delete_cursos:
  assumes "has_role st (auth_uid s) admin"
  shows "delete_cursos st s wh =
           Inr (st\<lparr>cursos := filter (\<lambda>r. \<not> wh r) (cursos st),
                   matriculas := filter (\<lambda>m. m_curso_id m \<notin> c_id ` {r \<in> set (cursos st). wh r})
                                   (matriculas st)\<rparr>)"
  using assms
  by (simp add: delete_cursos_def rls_target_def admin_permits_cursos Let_def)

text \<open>
  The claim that such a delete fails with a foreign-key violation does not hold: in the
  example store the administrator deletes the course that has an enrollment, the
  statement succeeds, and both the course and the enrollment are gone.
\<close>

theorem delete_curso_cascades_counterexample:
  "delete_cursos campus (Authenticated ''u-ana'') (\<lambda>r. c_id r = ''c-1'')
     = Inr (campus\<lparr>cursos := [], matriculas := []\<rparr>) \<and>
   list_ex (\<lambda>m. m_curso_id m = ''c-1'') (matriculas campus)"
  by (simp add: delete_cursos_def rls_target_def rls_permits_def policies_cursos_def
      applies_def has_role_def campus_def eng_sw_def bia_eng_sw_def)

text \<open>
  Claim C2, as the schema has it. \<open>matriculas.curso_id\<close> is declared
  \<open>REFERENCES cursos(id) ON DELETE CASCADE\<close>. A delete of a course by an
  administrator succeeds whether or not enrollments reference it: the course row is
  removed, every enrollment of that course is removed with it, and every other row of
  the store stays.
\<close>

theorem delete_curso_cascades:
  assumes "has_role st (auth_uid s) admin"
  shows "\<exists>st'. delete_cursos st s (\<lambda>r. c_id r = cid) = Inr st' \<and>
           cursos st' = filter (\<lambda>r. c_id r \<noteq> cid) (cursos st) \<and>
           matriculas st' =
             (if list_ex (\<lambda>r. c_id r = cid) (cursos st)
              then filter (\<lambda>m. m_curso_id m \<noteq> cid) (matriculas st)
              else matriculas st) \<and>
           alunos st' = alunos st \<and> user_roles st' = user_roles st \<and>
           profiles st' = profiles st \<and> users st' = users st"
proof -
  have "c_id ` {r \<in> set (cursos st). c_id r = cid}
          = (if list_ex (\<lambda>r. c_id r = cid) (cursos st) then {cid} else {})"
    by (auto simp: list_ex_iff)
  with admin_delete_cursos [OF assms, of "\<lambda>r. c_id r = cid"] show ?thesis
    by simp
qed

theorem delete_curso_cascades_witness:
  "has_role campus (auth_uid (Authenticated ''u-ana'')) admin \<and>
   (\<exists>st'. delete_cursos campus (Authenticated ''u-ana'') (\<lambda>r. c_id r = ''c-1'') = Inr st' \<and>
      cursos st' = [] \<and> matriculas st' = [] \<and> alunos st' = [bia, caio])"
proof -
  have h: "has_role campus (auth_uid (Authenticated ''u-ana'')) admin"
    by (simp add: has_role_def campus_def)
  from delete_curso_cascades [OF h, of "''c-1''"] obtain st' where
    d: "delete_cursos campus (Authenticated ''u-ana'') (\<lambda>r. c_id r = ''c-1'') = Inr st'"
    and c: "cursos st' = filter (\<lambda>r. c_id r \<noteq> ''c-1'') (cursos campus)"
    and m: "matriculas st' =
             (if list_ex (\<lambda>r. c_id r = ''c-1'') (cursos campus)
              then filter (\<lambda>m. m_curso_id m \<noteq> ''c-1'') (matriculas campus)
              else matriculas campus)"
    and a: "alunos st' = alunos campus"
    by blast
  from c have c': "cursos st' = []" by (simp add: campus_def eng_sw_def)
  from m have m': "matriculas st' = []" by (simp add: campus_def eng_sw_def bia_eng_sw_def)
  from a have a': "alunos st' = [bia, caio]" by (simp add: campus_def)
  from h d c' m' a' show ?thesis by blast
qed


section \<open>Provisioning a profile\<close>








section \<open>A second enrollment for the same pair\<close>


lemma int4_in_Inl: "\<not> in_int4 i \<Longrightarrow> int4_in t col i = Inl (Numeric_value_out_of_range t col)"
  by (simp add: int4_in_def)














section \<open>The update timestamp\<close>

lemma update_cursos_rows:
  assumes "update_cursos st s now wh set_clause = Inr st'"
  shows "cursos st' =
           map (\<lambda>r. if wh r \<and> rls_target policies_cursos st s UPDATE r
                     then (set_clause r)\<lparr>c_updated_at := now\<rparr> else r) (cursos st)"
proof -
  from assms obtain rows where
    r: "update_rows (\<lambda>r. wh r \<and> rls_target policies_cursos st s UPDATE r)
          (\<lambda>r. update_cursos_updated_at now (set_clause r))
          (rls_target policies_cursos st s UPDATE) (Insufficient_privilege Cursos)
          (\<lambda>others old n. or_else (cursos_constraints st others n) (cursos_referenced st old n))
          [] (cursos st) = Inr rows"
    and st': "st' = st\<lparr>cursos := rows\<rparr>"
    by (auto simp: update_cursos_def with_rows_def split: sum.splits)
  from update_rows_result [OF r] st' show ?thesis
    by (simp add: update_cursos_updated_at_def)
qed

lemma update_alunos_rows:
  assumes "update_alunos st s now wh set_clause = Inr st'"
  shows "alunos st' =
           map (\<lambda>r. if wh r \<and> rls_target policies_alunos st s UPDATE r
                     then (set_clause r)\<lparr>a_updated_at := now\<rparr> else r) (alunos st)"
proof -
  from assms obtain rows where
    r: "update_rows (\<lambda>r. wh r \<and> rls_target policies_alunos st s UPDATE r)
          (\<lambda>r. update_alunos_updated_at now (set_clause r))
          (rls_target policies_alunos st s UPDATE) (Insufficient_privilege Alunos)
          (\<lambda>others old n. or_else (alunos_constraints st others n) (alunos_referenced st old n))
          [] (alunos st) = Inr rows"
    and st': "st' = st\<lparr>alunos := rows\<rparr>"
    by (auto simp: update_alunos_def with_rows_def split: sum.splits)
  from update_rows_result [OF r] st' show ?thesis
    by (simp add: update_alunos_updated_at_def)
qed

lemma profiles_stamped:
  assumes "update_profiles st s now wh set_clause = Inr st'"
    and "i < length (profiles st)"
    and "wh (profiles st ! i)" and "rls_target policies_profiles st s UPDATE (profiles st ! i)"
  shows "p_updated_at (profiles st' ! i) = now"
  using update_profiles_rows [OF assms(1)] assms(2-) by simp

lemma cursos_stamped:
  assumes "update_cursos st s now wh set_clause = Inr st'"
    and "i < length (cursos st)"
    and "wh (cursos st ! i)" and "rls_target policies_cursos st s UPDATE (cursos st ! i)"
  shows "c_updated_at (cursos st' ! i) = now"
  using update_cursos_rows [OF assms(1)] assms(2-) by simp

lemma alunos_stamped:
  assumes "update_alunos st s now wh set_clause = Inr st'"
    and "i < length (alunos st)"
    and "wh (alunos st ! i)" and "rls_target policies_alunos st s UPDATE (alunos st ! i)"
  shows "a_updated_at (alunos st' ! i) = now"
  using update_alunos_rows [OF assms(1)] assms(2-) by simp

lemma profiles_length:
  "update_profiles st s now wh set_clause = Inr st' \<Longrightarrow> length (profiles st') = length (profiles st)"
  using update_profiles_rows [of st s now wh set_clause st'] by simp

lemma cursos_length:
  "update_cursos st s now wh set_clause = Inr st' \<Longrightarrow> length (cursos st') = length (cursos st)"
  using update_cursos_rows [of st s now wh set_clause st'] by simp

lemma alunos_length:
  "update_alunos st s now wh set_clause = Inr st' \<Longrightarrow> length (alunos st') = length (alunos st)"
  using update_alunos_rows [of st s now wh set_clause st'] by simp

text \<open>
  Claim C8, as the trigger has it. A successful update of profiles, cursos or alunos
  writes, for every row it targets, what the \<open>SET\<close> clause made of the row with
  \<open>updated_at\<close> replaced by the time \<open>now\<close> of the statement, whatever the clause had put
  there; the other rows are untouched. When a row is updated by two successive
  statements, at \<open>now\<close> and then at \<open>now'\<close>, it carries \<open>now\<close> after the first and
  \<open>now'\<close> after the second: its \<open>updated_at\<close> has not gone back exactly when the second
  statement's time is not before the first's. The trigger compares nothing.
\<close>

theorem updated_at_is_server_time:
  "(update_profiles st s now wh_p set_p = Inr st_p \<longrightarrow>
      profiles st_p =
        map (\<lambda>r. if wh_p r \<and> rls_target policies_profiles st s UPDATE r
                  then (set_p r)\<lparr>p_updated_at := now\<rparr> else r) (profiles st)) \<and>
   (update_cursos st s now wh_c set_c = Inr st_c \<longrightarrow>
      cursos st_c =
        map (\<lambda>r. if wh_c r \<and> rls_target policies_cursos st s UPDATE r
                  then (set_c r)\<lparr>c_updated_at := now\<rparr> else r) (cursos st)) \<and>
   (update_alunos st s now wh_a set_a = Inr st_a \<longrightarrow>
      alunos st_a =
        map (\<lambda>r. if wh_a r \<and> rls_target policies_alunos st s UPDATE r
                  then (set_a r)\<lparr>a_updated_at := now\<rparr> else r) (alunos st)) \<and>
   (update_profiles st s now wh_p set_p = Inr st_p \<and>
    update_profiles st_p s' now' wh_p' set_p' = Inr st_p' \<and>
    updated_twice wh_p (rls_target policies_profiles st s UPDATE)
      wh_p' (rls_target policies_profiles st_p s' UPDATE) (profiles st) (profiles st_p) i \<longrightarrow>
      p_updated_at (profiles st_p ! i) = now \<and> p_updated_at (profiles st_p' ! i) = now' \<and>
      (p_updated_at (profiles st_p ! i) \<le> p_updated_at (profiles st_p' ! i) \<longleftrightarrow> now \<le> now')) \<and>
   (update_cursos st s now wh_c set_c = Inr st_c \<and>
    update_cursos st_c s' now' wh_c' set_c' = Inr st_c' \<and>
    updated_twice wh_c (rls_target policies_cursos st s UPDATE)
      wh_c' (rls_target policies_cursos st_c s' UPDATE) (cursos st) (cursos st_c) j \<longrightarrow>
      c_updated_at (cursos st_c ! j) = now \<and> c_updated_at (cursos st_c' ! j) = now' \<and>
      (c_updated_at (cursos st_c ! j) \<le> c_updated_at (cursos st_c' ! j) \<longleftrightarrow> now \<le> now')) \<and>
   (update_alunos st s now wh_a set_a = Inr st_a \<and>
    update_alunos st_a s' now' wh_a' set_a' = Inr st_a' \<and>
    updated_twice wh_a (rls_target policies_alunos st s UPDATE)
      wh_a' (rls_target policies_alunos st_a s' UPDATE) (alunos st) (alunos st_a) k \<longrightarrow>
      a_updated_at (alunos st_a ! k) = now \<and> a_updated_at (alunos st_a' ! k) = now' \<and>
      (a_updated_at (alunos st_a ! k) \<le> a_updated_at (alunos st_a' ! k) \<longleftrightarrow> now \<le> now'))"
proof (intro conjI impI)
  assume "update_profiles st s now wh_p set_p = Inr st_p"
  then show "profiles st_p =
        map (\<lambda>r. if wh_p r \<and> rls_target policies_profiles st s UPDATE r
                  then (set_p r)\<lparr>p_updated_at := now\<rparr> else r) (profiles st)"
    by (rule update_profiles_rows)
next
  assume "update_cursos st s now wh_c set_c = Inr st_c"
  then show "cursos st_c =
        map (\<lambda>r. if wh_c r \<and> rls_target policies_cursos st s UPDATE r
                  then (set_c r)\<lparr>c_updated_at := now\<rparr> else r) (cursos st)"
    by (rule update_cursos_rows)
next
  assume "update_alunos st s now wh_a set_a = Inr st_a"
  then show "alunos st_a =
        map (\<lambda>r. if wh_a r \<and> rls_target policies_alunos st s UPDATE r
                  then (set_a r)\<lparr>a_updated_at := now\<rparr> else r) (alunos st)"
    by (rule update_alunos_rows)
next
  assume a: "update_profiles st s now wh_p set_p = Inr st_p \<and>
    update_profiles st_p s' now' wh_p' set_p' = Inr st_p' \<and>
    updated_twice wh_p (rls_target policies_profiles st s UPDATE)
      wh_p' (rls_target policies_profiles st_p s' UPDATE) (profiles st) (profiles st_p) i"
  then have 1: "p_updated_at (profiles st_p ! i) = now"
    by (auto simp: updated_twice_def intro: profiles_stamped)
  from a have 2: "p_updated_at (profiles st_p' ! i) = now'"
    by (auto simp: updated_twice_def profiles_length intro: profiles_stamped)
  from 1 2 a show "p_updated_at (profiles st_p ! i) = now" "p_updated_at (profiles st_p' ! i) = now'"
    "(p_updated_at (profiles st_p ! i) \<le> p_updated_at (profiles st_p' ! i) \<longleftrightarrow> now \<le> now')"
    by simp_all
next
  assume a: "update_cursos st s now wh_c set_c = Inr st_c \<and>
    update_cursos st_c s' now' wh_c' set_c' = Inr st_c' \<and>
    updated_twice wh_c (rls_target policies_cursos st s UPDATE)
      wh_c' (rls_target policies_cursos st_c s' UPDATE) (cursos st) (cursos st_c) j"
  then have 1: "c_updated_at (cursos st_c ! j) = now"
    by (auto simp: updated_twice_def intro: cursos_stamped)
  from a have 2: "c_updated_at (cursos st_c' ! j) = now'"
    by (auto simp: updated_twice_def cursos_length intro: cursos_stamped)
  from 1 2 a show "c_updated_at (cursos st_c ! j) = now" "c_updated_at (cursos st_c' ! j) = now'"
    "(c_updated_at (cursos st_c ! j) \<le> c_updated_at (cursos st_c' ! j) \<longleftrightarrow> now \<le> now')"
    by simp_all
next
  assume a: "update_alunos st s now wh_a set_a = Inr st_a \<and>
    update_alunos st_a s' now' wh_a' set_a' = Inr st_a' \<and>
    updated_twice wh_a (rls_target policies_alunos st s UPDATE)
      wh_a' (rls_target policies_alunos st_a s' UPDATE) (alunos st) (alunos st_a) k"
  then have 1: "a_updated_at (alunos st_a ! k) = now"
    by (auto simp: updated_twice_def intro: alunos_stamped)
  from a have 2: "a_updated_at (alunos st_a' ! k) = now'"
    by (auto simp: updated_twice_def alunos_length intro: alunos_stamped)
  from 1 2 a show "a_updated_at (alunos st_a ! k) = now" "a_updated_at (alunos st_a' ! k) = now'"
    "(a_updated_at (alunos st_a ! k) \<le> a_updated_at (alunos st_a' ! k) \<longleftrightarrow> now \<le> now')"
    by simp_all
qed


lemma campus_ana_targets:
  "rls_target policies_cursos (campus\<lparr>cursos := cs\<rparr>) (Authenticated ''u-ana'') UPDATE c"
  "rls_target policies_alunos (campus\<lparr>alunos := as\<rparr>) (Authenticated ''u-ana'') UPDATE a"
  by (simp_all add: rls_target_def rls_permits_def policies_cursos_def policies_alunos_def
      applies_def has_role_def campus_def)

lemma campus_curso_update_1:
  "update_cursos campus (Authenticated ''u-ana'') 300 (\<lambda>r. c_id r = ''c-1'')
       (\<lambda>r. r\<lparr>c_duracao_semestres := 10, c_updated_at := 7\<rparr>)
     = Inr (campus\<lparr>cursos := [eng_sw\<lparr>c_duracao_semestres := 10, c_updated_at := 300\<rparr>]\<rparr>)"
  using campus_ana_targets(1) [of "cursos campus"]
  by (simp add: update_cursos_def with_rows_def update_cursos_updated_at_def or_else_def
      cursos_constraints_def cursos_referenced_def campus_def eng_sw_def)

lemma campus_curso_update_2:
  "update_cursos (campus\<lparr>cursos := [eng_sw\<lparr>c_duracao_semestres := 10, c_updated_at := 300\<rparr>]\<rparr>)
       (Authenticated ''u-ana'') 400 (\<lambda>r. c_id r = ''c-1'') (\<lambda>r. r\<lparr>c_codigo_curso := ''ESW''\<rparr>)
     = Inr (campus\<lparr>cursos := [eng_sw\<lparr>c_codigo_curso := ''ESW'', c_duracao_semestres := 10,
                                       c_updated_at := 400\<rparr>]\<rparr>)"
  by (simp add: update_cursos_def with_rows_def update_cursos_updated_at_def or_else_def
      cursos_constraints_def cursos_referenced_def campus_ana_targets eng_sw_def)


lemma campus_profile_update_2:
  "update_profiles
       (campus\<lparr>profiles := [ana_profile\<lparr>p_nome_completo := ''Ana S.'', p_updated_at := 300\<rparr>,
                               rui_profile]\<rparr>)
       (Authenticated ''u-ana'') 400 (\<lambda>r. True) (\<lambda>r. r\<lparr>p_updated_at := 0\<rparr>)
     = Inr (campus\<lparr>profiles := [ana_profile\<lparr>p_nome_completo := ''Ana S.'', p_updated_at := 400\<rparr>,
                                  rui_profile]\<rparr>)"
  by (simp add: update_profiles_def with_rows_def update_profiles_updated_at_def or_else_def
      profiles_constraints_def profiles_referenced_def profiles_update_iff
      ana_profile_def rui_profile_def campus_def ana_def rui_def)

lemma campus_aluno_update_1:
  "update_alunos campus (Authenticated ''u-ana'') 300 (\<lambda>r. a_id r = ''a-1'')
       (\<lambda>r. r\<lparr>a_status := TRANCADO\<rparr>)
     = Inr (campus\<lparr>alunos := [bia\<lparr>a_status := TRANCADO, a_updated_at := 300\<rparr>, caio]\<rparr>)"
  using campus_ana_targets(2) [of "alunos campus"]
  by (simp add: update_alunos_def with_rows_def update_alunos_updated_at_def or_else_def
      alunos_constraints_def alunos_referenced_def campus_def bia_def caio_def)

lemma campus_aluno_update_2:
  "update_alunos (campus\<lparr>alunos := [bia\<lparr>a_status := TRANCADO, a_updated_at := 300\<rparr>, caio]\<rparr>)
       (Authenticated ''u-ana'') 400 (\<lambda>r. a_id r = ''a-1'') (\<lambda>r. r\<lparr>a_status := ATIVO\<rparr>)
     = Inr (campus\<lparr>alunos := [bia\<lparr>a_status := ATIVO, a_updated_at := 400\<rparr>, caio]\<rparr>)"
  by (simp add: update_alunos_def with_rows_def update_alunos_updated_at_def or_else_def
      alunos_constraints_def alunos_referenced_def campus_ana_targets bia_def caio_def)

text \<open>
  \<open>updated_at\<close> does not always advance across successive updates of a row. \<open>NOW()\<close> is
  the start time of the statement's transaction, and a transaction that started
  earlier can write later: in the example store the administrator's profile is updated
  by a statement whose time is 400 and then by one whose time is 300, and the column
  goes from 400 back to 300.
\<close>

theorem updated_at_goes_back_counterexample:
  "update_profiles campus (Authenticated ''u-ana'') 400 (\<lambda>r. True)
       (\<lambda>r. r\<lparr>p_nome_completo := ''Ana S.''\<rparr>)
     = Inr (campus\<lparr>profiles := [ana_profile\<lparr>p_nome_completo := ''Ana S.'', p_updated_at := 400\<rparr>,
                                  rui_profile]\<rparr>) \<and>
   update_profiles
       (campus\<lparr>profiles := [ana_profile\<lparr>p_nome_completo := ''Ana S.'', p_updated_at := 400\<rparr>,
                               rui_profile]\<rparr>)
       (Authenticated ''u-ana'') 300 (\<lambda>r. True) (\<lambda>r. r\<lparr>p_nome_completo := ''Ana''\<rparr>)
     = Inr (campus\<lparr>profiles := [ana_profile\<lparr>p_nome_completo := ''Ana'', p_updated_at := 300\<rparr>,
                                  rui_profile]\<rparr>) \<and>
   p_updated_at (profiles (campus\<lparr>profiles :=
       [ana_profile\<lparr>p_nome_completo := ''Ana S.'', p_updated_at := 400\<rparr>, rui_profile]\<rparr>) ! 0) = 400 \<and>
   p_updated_at (profiles (campus\<lparr>profiles :=
       [ana_profile\<lparr>p_nome_completo := ''Ana'', p_updated_at := 300\<rparr>, rui_profile]\<rparr>) ! 0) = 300"
  by (simp add: update_profiles_def with_rows_def update_profiles_updated_at_def or_else_def
      profiles_constraints_def profiles_referenced_def profiles_update_iff
      ana_profile_def rui_profile_def campus_def ana_def rui_def)

theorem updated_at_is_server_time_witness:
  "update_profiles campus (Authenticated ''u-ana'') 300 (\<lambda>r. True)
       (\<lambda>r. r\<lparr>p_nome_completo := ''Ana S.''\<rparr>)
     = Inr (campus\<lparr>profiles := [ana_profile\<lparr>p_nome_completo := ''Ana S.'', p_updated_at := 300\<rparr>,
                                  rui_profile]\<rparr>) \<and>
   update_cursos campus (Authenticated ''u-ana'') 300 (\<lambda>r. c_id r = ''c-1'')
       (\<lambda>r. r\<lparr>c_duracao_semestres := 10, c_updated_at := 7\<rparr>)
     = Inr (campus\<lparr>cursos := [eng_sw\<lparr>c_duracao_semestres := 10, c_updated_at := 300\<rparr>]\<rparr>) \<and>
   update_alunos campus (Authenticated ''u-ana'') 300 (\<lambda>r. a_id r = ''a-1'')
       (\<lambda>r. r\<lparr>a_status := TRANCADO\<rparr>)
     = Inr (campus\<lparr>alunos := [bia\<lparr>a_status := TRANCADO, a_updated_at := 300\<rparr>, caio]\<rparr>) \<and>
   p_updated_at (profiles (campus\<lparr>profiles :=
       [ana_profile\<lparr>p_nome_completo := ''Ana S.'', p_updated_at := 300\<rparr>, rui_profile]\<rparr>) ! 0) = 300 \<and>
   p_updated_at (profiles (campus\<lparr>profiles :=
       [ana_profile\<lparr>p_nome_completo := ''Ana S.'', p_updated_at := 400\<rparr>, rui_profile]\<rparr>) ! 0) = 400 \<and>
   c_updated_at (cursos (campus\<lparr>cursos :=
       [eng_sw\<lparr>c_duracao_semestres := 10, c_updated_at := 300\<rparr>]\<rparr>) ! 0) = 300 \<and>
   c_updated_at (cursos (campus\<lparr>cursos :=
       [eng_sw\<lparr>c_codigo_curso := ''ESW'', c_duracao_semestres := 10, c_updated_at := 400\<rparr>]\<rparr>) ! 0)
     = 400 \<and>
   a_updated_at (alunos (campus\<lparr>alunos :=
       [bia\<lparr>a_status := TRANCADO, a_updated_at := 300\<rparr>, caio]\<rparr>) ! 0) = 300 \<and>
   a_updated_at (alunos (campus\<lparr>alunos :=
       [bia\<lparr>a_status := ATIVO, a_updated_at := 400\<rparr>, caio]\<rparr>) ! 0) = 400"
proof -
  let ?A = "Authenticated ''u-ana''"
  let ?p1 = "campus\<lparr>profiles := [ana_profile\<lparr>p_nome_completo := ''Ana S.'', p_updated_at := 300\<rparr>,
                                  rui_profile]\<rparr>"
  let ?p2 = "campus\<lparr>profiles := [ana_profile\<lparr>p_nome_completo := ''Ana S.'', p_updated_at := 400\<rparr>,
                                  rui_profile]\<rparr>"
  let ?c1 = "campus\<lparr>cursos := [eng_sw\<lparr>c_duracao_semestres := 10, c_updated_at := 300\<rparr>]\<rparr>"
  let ?c2 = "campus\<lparr>cursos := [eng_sw\<lparr>c_codigo_curso := ''ESW'', c_duracao_semestres := 10,
                                       c_updated_at := 400\<rparr>]\<rparr>"
  let ?a1 = "campus\<lparr>alunos := [bia\<lparr>a_status := TRANCADO, a_updated_at := 300\<rparr>, caio]\<rparr>"
  let ?a2 = "campus\<lparr>alunos := [bia\<lparr>a_status := ATIVO, a_updated_at := 400\<rparr>, caio]\<rparr>"
  have tp: "updated_twice (\<lambda>r. True) (rls_target policies_profiles campus ?A UPDATE)
              (\<lambda>r. True) (rls_target policies_profiles ?p1 ?A UPDATE) (profiles campus) (profiles ?p1) 0"
    by (simp add: updated_twice_def profiles_update_iff campus_def ana_profile_def)
  have tc: "updated_twice (\<lambda>r. c_id r = ''c-1'') (rls_target policies_cursos campus ?A UPDATE)
              (\<lambda>r. c_id r = ''c-1'') (rls_target policies_cursos ?c1 ?A UPDATE)
              (cursos campus) (cursos ?c1) 0"
    using campus_ana_targets(1) [of "cursos campus"]
    by (simp add: updated_twice_def campus_ana_targets) (simp add: campus_def eng_sw_def)
  have ta: "updated_twice (\<lambda>r. a_id r = ''a-1'') (rls_target policies_alunos campus ?A UPDATE)
              (\<lambda>r. a_id r = ''a-1'') (rls_target policies_alunos ?a1 ?A UPDATE)
              (alunos campus) (alunos ?a1) 0"
    using campus_ana_targets(2) [of "alunos campus"]
    by (simp add: updated_twice_def campus_ana_targets) (simp add: campus_def bia_def)
  note fact = updated_at_is_server_time [of campus ?A 300
      "\<lambda>r. True" "\<lambda>r. r\<lparr>p_nome_completo := ''Ana S.''\<rparr>" ?p1
      "\<lambda>r. c_id r = ''c-1''" "\<lambda>r. r\<lparr>c_duracao_semestres := 10, c_updated_at := 7\<rparr>" ?c1
      "\<lambda>r. a_id r = ''a-1''" "\<lambda>r. r\<lparr>a_status := TRANCADO\<rparr>" ?a1
      ?A 400 "\<lambda>r. True" "\<lambda>r. r\<lparr>p_updated_at := 0\<rparr>" ?p2 0
      "\<lambda>r. c_id r = ''c-1''" "\<lambda>r. r\<lparr>c_codigo_curso := ''ESW''\<rparr>" ?c2 0
      "\<lambda>r. a_id r = ''a-1''" "\<lambda>r. r\<lparr>a_status := ATIVO\<rparr>" ?a2 0]
  from fact campus_update_ana campus_profile_update_2 tp
  have p: "p_updated_at (profiles ?p1 ! 0) = 300 \<and> p_updated_at (profiles ?p2 ! 0) = 400"
    by blast
  from fact campus_curso_update_1 campus_curso_update_2 tc
  have c: "c_updated_at (cursos ?c1 ! 0) = 300 \<and> c_updated_at (cursos ?c2 ! 0) = 400"
    by blast
  from fact campus_aluno_update_1 campus_aluno_update_2 ta
  have a: "a_updated_at (alunos ?a1 ! 0) = 300 \<and> a_updated_at (alunos ?a2 ! 0) = 400"
    by blast
  from p c a campus_update_ana campus_curso_update_1 campus_aluno_update_1
  show ?thesis by blast
qed


section \<open>Validation before the request\<close>

lemma call_sent: "call exec req w = (resp, w') \<Longrightarrow> sent w' = sent w @ [req]"
  by (auto simp: call_def split: prod.splits)

lemma cm_fetchCursos_sent:
  "sent (fst (cm_fetchCursos exec w ui)) = sent w @ [Fetch_cursos]"
  by (auto simp: cm_fetchCursos_def call_def split: prod.splits)

lemma am_fetchAlunos_sent:
  "sent (fst (am_fetchAlunos exec w ui)) = sent w @ [Fetch_alunos]"
  by (auto simp: am_fetchAlunos_def call_def split: prod.splits)

lemma mm_fetchMatriculas_sent:
  "sent (fst (mm_fetchMatriculas exec w ui)) = sent w @ [Fetch_matriculas]"
  by (auto simp: mm_fetchMatriculas_def call_def split: prod.splits)

lemma cm_saved_sent:
  "\<exists>rest. sent (fst (cm_saved exec t (call exec req w) ui)) = sent w @ req # rest \<and>
          set rest \<subseteq> {Fetch_cursos}"
  by (cases "call exec req w")
     (auto simp: cm_saved_def cm_fetchCursos_sent dest: call_sent split: option.splits)

lemma am_saved_sent:
  "\<exists>rest. sent (fst (am_saved exec t (call exec req w) ui)) = sent w @ req # rest \<and>
          set rest \<subseteq> {Fetch_alunos}"
  by (cases "call exec req w")
     (auto simp: am_saved_def am_fetchAlunos_sent dest: call_sent split: option.splits)

lemma cm_handleSubmit_invalid:
  assumes "cursoSchema (cm_formData ui) \<noteq> []"
  shows "cm_handleSubmit exec w ui
           = (w, cm_toast (validation_toast (hd (cursoSchema (cm_formData ui)))) ui)"
  using assms by (cases "cursoSchema (cm_formData ui)") (simp_all add: cm_handleSubmit_def)

lemma cm_handleSubmit_valid:
  assumes "cursoSchema (cm_formData ui) = []"
  shows "\<exists>rest. sent (fst (cm_handleSubmit exec w ui))
           = sent w @ (case cm_editingCurso ui of
                         Some c \<Rightarrow> Update_curso (cm_formData ui) (c_id c)
                       | None \<Rightarrow> Insert_curso (cm_formData ui)) # rest \<and>
           set rest \<subseteq> {Fetch_cursos}"
  using assms cm_saved_sent [of exec _ _ w ui]
  by (simp add: cm_handleSubmit_def split: option.splits)

lemma am_handleSubmit_invalid:
  assumes "alunoSchema re (am_formData ui) \<noteq> []"
  shows "am_handleSubmit re exec w ui
           = (w, am_toast (validation_toast (hd (alunoSchema re (am_formData ui)))) ui)"
  using assms by (cases "alunoSchema re (am_formData ui)") (simp_all add: am_handleSubmit_def)

lemma am_handleSubmit_valid:
  assumes "alunoSchema re (am_formData ui) = []"
  shows "\<exists>rest. sent (fst (am_handleSubmit re exec w ui))
           = sent w @ (case am_editingAluno ui of
                         Some a \<Rightarrow> Update_aluno (am_formData ui) (a_id a)
                       | None \<Rightarrow> Insert_aluno (am_formData ui)) # rest \<and>
           set rest \<subseteq> {Fetch_alunos}"
  using assms am_saved_sent [of exec _ _ w ui]
  by (simp add: am_handleSubmit_def split: option.splits)

lemma mm_handleSubmit_sends:
  "\<exists>rest. sent (fst (mm_handleSubmit exec year w ui))
           = sent w @ Insert_matricula (mm_formData ui) # rest"
  by (cases "call exec (Insert_matricula (mm_formData ui)) w")
     (auto simp: mm_handleSubmit_def mm_fetchMatriculas_sent dest: call_sent split: option.splits)

text \<open>
  Claim C6, as the modules have it. CursosManager and AlunosManager parse the form with
  their schema first, for a create and for an update alike: when the schema raises an
  issue, the handler sends nothing (the world, with its log of requests and the state
  behind the client, is the one it started from) and shows the validation toast with
  the first issue's message; when it raises none, the first request sent is the insert
  or update of the form. MatriculasManager has no schema: its submit sends the insert
  of the form, whatever the form holds.
\<close>

theorem forms_validate_before_request:
  "(cursoSchema (cm_formData cm) \<noteq> [] \<longrightarrow>
      cm_handleSubmit exec w cm
        = (w, cm_toast (validation_toast (hd (cursoSchema (cm_formData cm)))) cm)) \<and>
   (cursoSchema (cm_formData cm) = [] \<longrightarrow>
      (\<exists>rest. sent (fst (cm_handleSubmit exec w cm))
                = sent w @ (case cm_editingCurso cm of
                              Some c \<Rightarrow> Update_curso (cm_formData cm) (c_id c)
                            | None \<Rightarrow> Insert_curso (cm_formData cm)) # rest)) \<and>
   (alunoSchema email_regex (am_formData am) \<noteq> [] \<longrightarrow>
      am_handleSubmit email_regex exec w am
        = (w, am_toast (validation_toast (hd (alunoSchema email_regex (am_formData am)))) am)) \<and>
   (alunoSchema email_regex (am_formData am) = [] \<longrightarrow>
      (\<exists>rest. sent (fst (am_handleSubmit email_regex exec w am))
                = sent w @ (case am_editingAluno am of
                              Some a \<Rightarrow> Update_aluno (am_formData am) (a_id a)
                            | None \<Rightarrow> Insert_aluno (am_formData am)) # rest)) \<and>
   (\<exists>rest. sent (fst (mm_handleSubmit exec year w mm))
             = sent w @ Insert_matricula (mm_formData mm) # rest)"
  using cm_handleSubmit_invalid [of cm exec w] cm_handleSubmit_valid [of cm exec w]
    am_handleSubmit_invalid [of email_regex am exec w] am_handleSubmit_valid [of email_regex am exec w]
    mm_handleSubmit_sends [of exec year w mm]
  by blast

text \<open>
  The enrollment form does not validate before sending: submitted as it first opens,
  with no student and no course chosen, it sends the insert to the store, and what the
  user sees is the store's error.
\<close>

theorem enrollment_form_unvalidated_counterexample:
  "mm_handleSubmit (refusing ''invalid input syntax for type uuid'') 2025
       \<lparr>sent = [], backend = 0\<rparr> (mm_initial 2025)
     = (\<lparr>sent = [Insert_matricula \<lparr>mf_aluno_id = [], mf_curso_id = [],
                                      mf_ano_ingresso = Some 2025, mf_semestre_ingresso = Some 1\<rparr>],
         backend = 1\<rparr>,
        mm_toast \<lparr>title = ''Erro ao matricular'',
                  description = Some ''invalid input syntax for type uuid'',
                  variant = destructive\<rparr> (mm_initial 2025))"
  by (simp add: mm_handleSubmit_def call_def refusing_def mm_initial_def mm_toast_def)

lemma bad_curso_form:
  "cursoSchema \<lparr>cf_nome = ''Direito'', cf_codigo_curso = ''D'', cf_duracao_semestres = Some 0\<rparr>
     = [''C'' @ [CHR 0xF3] @ ''digo deve ter no m'' @ [CHR 0xED] @ ''nimo 2 caracteres'',
        ''Dura'' @ [CHR 0xE7, CHR 0xE3] @ ''o deve ser no m'' @ [CHR 0xED] @ ''nimo 1 semestre'']"
  by (simp add: cursoSchema_def z_string_min_def z_number_min_def)

lemma good_curso_form:
  "cursoSchema \<lparr>cf_nome = ''Direito'', cf_codigo_curso = ''DIR'', cf_duracao_semestres = Some 10\<rparr>
     = []"
  by (simp add: cursoSchema_def z_string_min_def z_number_min_def)

lemma blank_aluno_form:
  "alunoSchema (\<lambda>s. CHR ''@'' \<in> set s) (am_formData am_initial)
     = [''Nome deve ter no m'' @ [CHR 0xED] @ ''nimo 3 caracteres'',
        ''Formato: AAAA-S-NNNN (ex: 2025-1-1234)'', ''Formato: XXX.XXX.XXX-XX'',
        ''Email inv'' @ [CHR 0xE1] @ ''lido'']"
  by (simp add: alunoSchema_def z_string_min_def z_string_regex_def matricula_regex_def
      cpf_regex_def am_initial_def)

lemma good_aluno_form:
  "alunoSchema (\<lambda>s. CHR ''@'' \<in> set s)
     \<lparr>af_nome_completo = ''Bia Lima'', af_matricula = ''2025-1-0001'',
      af_cpf = ''111.222.333-44'', af_email = ''bia@example.org'',
      af_data_nascimento = ''2000-01-31'', af_telefone = [], af_status = ATIVO\<rparr> = []"
  by (simp add: alunoSchema_def z_string_min_def z_string_regex_def matricula_regex_def
      cpf_regex_def is_digit_def)


theorem forms_validate_before_request_witness:
  "cm_handleSubmit accepting \<lparr>sent = [], backend = 0\<rparr>
       (cm_initial\<lparr>cm_formData := \<lparr>cf_nome = ''Direito'', cf_codigo_curso = ''D'',
                                    cf_duracao_semestres = Some 0\<rparr>\<rparr>)
     = (\<lparr>sent = [], backend = 0\<rparr>,
        cm_toast (validation_toast
                    (''C'' @ [CHR 0xF3] @ ''digo deve ter no m'' @ [CHR 0xED] @ ''nimo 2 caracteres''))
          (cm_initial\<lparr>cm_formData := \<lparr>cf_nome = ''Direito'', cf_codigo_curso = ''D'',
                                       cf_duracao_semestres = Some 0\<rparr>\<rparr>)) \<and>
   (\<exists>rest. sent (fst (cm_handleSubmit accepting \<lparr>sent = [], backend = 0\<rparr>
                         (cm_initial\<lparr>cm_formData := \<lparr>cf_nome = ''Direito'', cf_codigo_curso = ''DIR'',
                                                      cf_duracao_semestres = Some 10\<rparr>\<rparr>)))
            = Insert_curso \<lparr>cf_nome = ''Direito'', cf_codigo_curso = ''DIR'',
                            cf_duracao_semestres = Some 10\<rparr> # rest) \<and>
   am_handleSubmit (\<lambda>s. CHR ''@'' \<in> set s) accepting \<lparr>sent = [], backend = 0\<rparr> am_initial
     = (\<lparr>sent = [], backend = 0\<rparr>,
        am_toast (validation_toast (''Nome deve ter no m'' @ [CHR 0xED] @ ''nimo 3 caracteres''))
          am_initial) \<and>
   (\<exists>rest. sent (fst (am_handleSubmit (\<lambda>s. CHR ''@'' \<in> set s) accepting \<lparr>sent = [], backend = 0\<rparr>
                         (am_initial\<lparr>am_formData :=
                            \<lparr>af_nome_completo = ''Bia Lima'', af_matricula = ''2025-1-0001'',
                             af_cpf = ''111.222.333-44'', af_email = ''bia@example.org'',
                             af_data_nascimento = ''2000-01-31'', af_telefone = [],
                             af_status = ATIVO\<rparr>\<rparr>)))
            = Insert_aluno \<lparr>af_nome_completo = ''Bia Lima'', af_matricula = ''2025-1-0001'',
                             af_cpf = ''111.222.333-44'', af_email = ''bia@example.org'',
                             af_data_nascimento = ''2000-01-31'', af_telefone = [],
                             af_status = ATIVO\<rparr> # rest)"
proof -
  let ?w = "\<lparr>sent = [], backend = 0::nat\<rparr>"
  let ?re = "\<lambda>s. CHR ''@'' \<in> set s"
  let ?bad = "\<lparr>cf_nome = ''Direito'', cf_codigo_curso = ''D'', cf_duracao_semestres = Some 0\<rparr>"
  let ?good = "\<lparr>cf_nome = ''Direito'', cf_codigo_curso = ''DIR'', cf_duracao_semestres = Some 10\<rparr>"
  let ?bia = "\<lparr>af_nome_completo = ''Bia Lima'', af_matricula = ''2025-1-0001'',
               af_cpf = ''111.222.333-44'', af_email = ''bia@example.org'',
               af_data_nascimento = ''2000-01-31'', af_telefone = [], af_status = ATIVO\<rparr>"
  have b: "cursoSchema (cm_formData (cm_initial\<lparr>cm_formData := ?bad\<rparr>)) \<noteq> []"
    and hb: "hd (cursoSchema (cm_formData (cm_initial\<lparr>cm_formData := ?bad\<rparr>)))
               = ''C'' @ [CHR 0xF3] @ ''digo deve ter no m'' @ [CHR 0xED] @ ''nimo 2 caracteres''"
    by (simp_all add: bad_curso_form)
  have g: "cursoSchema (cm_formData (cm_initial\<lparr>cm_formData := ?good\<rparr>)) = []"
    and eg: "cm_editingCurso (cm_initial\<lparr>cm_formData := ?good\<rparr>) = None"
    and fg: "cm_formData (cm_initial\<lparr>cm_formData := ?good\<rparr>) = ?good"
    by (simp_all add: good_curso_form cm_initial_def)
  have ab: "alunoSchema ?re (am_formData am_initial) \<noteq> []"
    and hab: "hd (alunoSchema ?re (am_formData am_initial))
                = ''Nome deve ter no m'' @ [CHR 0xED] @ ''nimo 3 caracteres''"
    by (simp_all add: blank_aluno_form)
  have ag: "alunoSchema ?re (am_formData (am_initial\<lparr>am_formData := ?bia\<rparr>)) = []"
    and eag: "am_editingAluno (am_initial\<lparr>am_formData := ?bia\<rparr>) = None"
    and fag: "am_formData (am_initial\<lparr>am_formData := ?bia\<rparr>) = ?bia"
    by (simp_all add: good_aluno_form am_initial_def)
  from forms_validate_before_request [of "cm_initial\<lparr>cm_formData := ?bad\<rparr>" accepting ?w
      ?re am_initial 2025 "mm_initial 2025"] b ab
  have r1: "cm_handleSubmit accepting ?w (cm_initial\<lparr>cm_formData := ?bad\<rparr>)
        = (?w, cm_toast (validation_toast (hd (cursoSchema (cm_formData (cm_initial\<lparr>cm_formData := ?bad\<rparr>)))))
                 (cm_initial\<lparr>cm_formData := ?bad\<rparr>))"
    and r3: "am_handleSubmit ?re accepting ?w am_initial
        = (?w, am_toast (validation_toast (hd (alunoSchema ?re (am_formData am_initial)))) am_initial)"
    by blast+
  from forms_validate_before_request [of "cm_initial\<lparr>cm_formData := ?good\<rparr>" accepting ?w
      ?re "am_initial\<lparr>am_formData := ?bia\<rparr>" 2025 "mm_initial 2025"] g ag
  have r2: "\<exists>rest. sent (fst (cm_handleSubmit accepting ?w (cm_initial\<lparr>cm_formData := ?good\<rparr>)))
                = sent ?w @ (case cm_editingCurso (cm_initial\<lparr>cm_formData := ?good\<rparr>) of
                              Some c \<Rightarrow> Update_curso (cm_formData (cm_initial\<lparr>cm_formData := ?good\<rparr>)) (c_id c)
                            | None \<Rightarrow> Insert_curso (cm_formData (cm_initial\<lparr>cm_formData := ?good\<rparr>))) # rest"
    and r4: "\<exists>rest. sent (fst (am_handleSubmit ?re accepting ?w (am_initial\<lparr>am_formData := ?bia\<rparr>)))
                = sent ?w @ (case am_editingAluno (am_initial\<lparr>am_formData := ?bia\<rparr>) of
                              Some a \<Rightarrow> Update_aluno (am_formData (am_initial\<lparr>am_formData := ?bia\<rparr>)) (a_id a)
                            | None \<Rightarrow> Insert_aluno (am_formData (am_initial\<lparr>am_formData := ?bia\<rparr>))) # rest"
    by blast+
  from r1 have q1: "cm_handleSubmit accepting ?w (cm_initial\<lparr>cm_formData := ?bad\<rparr>)
        = (?w, cm_toast (validation_toast
               (''C'' @ [CHR 0xF3] @ ''digo deve ter no m'' @ [CHR 0xED] @ ''nimo 2 caracteres''))
                 (cm_initial\<lparr>cm_formData := ?bad\<rparr>))"
    by (simp only: hb)
  from r3 have q3: "am_handleSubmit ?re accepting ?w am_initial
        = (?w, am_toast (validation_toast (''Nome deve ter no m'' @ [CHR 0xED] @ ''nimo 3 caracteres''))
                 am_initial)"
    by (simp only: hab)
  from r2 have q2: "\<exists>rest. sent (fst (cm_handleSubmit accepting ?w (cm_initial\<lparr>cm_formData := ?good\<rparr>)))
                = Insert_curso ?good # rest"
    by (simp only: eg fg option.case world.simps append_Nil)
  from r4 have q4: "\<exists>rest. sent (fst (am_handleSubmit ?re accepting ?w (am_initial\<lparr>am_formData := ?bia\<rparr>)))
                = Insert_aluno ?bia # rest"
    by (simp only: eag fag option.case world.simps append_Nil)
  from q1 q2 q3 q4 show ?thesis by blast
qed


section \<open>Errors of the delete handlers\<close>

lemma am_handleDelete_error_silent:
  assumes "error (fst (exec (Update_aluno_status INATIVO ident) (backend w))) = Some e"
  shows "am_toasts (snd (am_handleDelete exec True ident w ui)) = am_toasts ui"
  using assms
  by (cases "exec (Update_aluno_status INATIVO ident) (backend w)")
     (simp add: am_handleDelete_def call_def)

lemma mm_handleDelete_error_silent:
  assumes "error (fst (exec (Delete_matricula ident) (backend w))) = Some e"
  shows "mm_toasts (snd (mm_handleDelete exec True ident w ui)) = mm_toasts ui"
  using assms
  by (cases "exec (Delete_matricula ident) (backend w)")
     (simp add: mm_handleDelete_def call_def)

text \<open>
  Claim C7 asks that every error the store returns reaches the user. The delete
  handlers of AlunosManager (the soft delete) and of MatriculasManager have no branch
  for an error: with the user's confirmation given and the client answering with an
  error, each sends its request and then shows nothing, and the component is as before.
  The delete handler of CursosManager, on the same answer, shows its error toast.
\<close>

theorem delete_errors_not_shown:
  "am_handleDelete (refusing ''JWT expired'') True ''a-1''
       \<lparr>sent = [], backend = 0\<rparr> am_initial
     = (\<lparr>sent = [Update_aluno_status INATIVO ''a-1''], backend = 1\<rparr>, am_initial) \<and>
   mm_handleDelete (refusing ''JWT expired'') True ''m-1''
       \<lparr>sent = [], backend = 0\<rparr> (mm_initial 2025)
     = (\<lparr>sent = [Delete_matricula ''m-1''], backend = 1\<rparr>, mm_initial 2025) \<and>
   cm_handleDelete (refusing ''JWT expired'') True ''c-1''
       \<lparr>sent = [], backend = 0\<rparr> cm_initial
     = (\<lparr>sent = [Delete_curso ''c-1''], backend = 1\<rparr>,
        cm_toast \<lparr>title = ''Erro ao excluir curso'',
                  description = Some ''Pode haver alunos matriculados neste curso'',
                  variant = destructive\<rparr> cm_initial)"
  by (simp add: am_handleDelete_def mm_handleDelete_def cm_handleDelete_def call_def
      refusing_def)

section \<open>Course duration\<close>

text \<open>
  The courses table has no constraint on \<open>duracao_semestres\<close>. In the example store
  the administrator's insert of a course of duration 0 is stored, and so is an update
  of the existing course to duration -3.
\<close>

theorem course_duration_counterexample:
  "insert_cursos campus (Authenticated ''u-ana'') direito
     = Inr (campus\<lparr>cursos := [eng_sw, direito]\<rparr>) \<and>
   c_duracao_semestres direito = 0 \<and>
   update_cursos campus (Authenticated ''u-ana'') 300 (\<lambda>r. c_id r = ''c-1'')
       (\<lambda>r. r\<lparr>c_duracao_semestres := - 3\<rparr>)
     = Inr (campus\<lparr>cursos := [eng_sw\<lparr>c_duracao_semestres := - 3, c_updated_at := 300\<rparr>]\<rparr>)"
  by (simp add: insert_cursos_def insert_row_def update_cursos_def with_rows_def
      update_cursos_updated_at_def or_else_def rls_target_def rls_permits_def
      policies_cursos_def applies_def has_role_def cursos_constraints_def
      cursos_referenced_def campus_def eng_sw_def direito_def)

lemma cursoSchema_duracao:
  assumes "cursoSchema f = []"
  shows "\<exists>d. cf_duracao_semestres f = Some d \<and> 1 \<le> d"
  using assms
  by (auto simp: cursoSchema_def z_number_min_def split: option.splits if_splits)

lemma cursoSchema_short:
  assumes "case cf_duracao_semestres f of None \<Rightarrow> True | Some d \<Rightarrow> d < 1"
  shows "cursoSchema f \<noteq> []"
  using assms
  by (auto simp: cursoSchema_def z_number_min_def split: option.splits)

text \<open>
  Claim C9, as the code has it. The bound on the duration is the course form's: a
  submit of CursosManager whose duration is below 1, or is not a number, is refused by
  the schema before anything is sent (the world is unchanged and the validation toast
  is shown), for a create and for an update alike; and every insert or update request
  the submit does send carries a duration that is a number and at least 1.
\<close>

theorem course_form_duration:
  "((case cf_duracao_semestres (cm_formData ui) of None \<Rightarrow> True | Some d \<Rightarrow> d < 1) \<longrightarrow>
      cm_handleSubmit exec w ui
        = (w, cm_toast (validation_toast (hd (cursoSchema (cm_formData ui)))) ui)) \<and>
   (\<exists>new. sent (fst (cm_handleSubmit exec w ui)) = sent w @ new \<and>
      (\<forall>req \<in> set new. \<forall>v. carries_duracao req = Some v \<longrightarrow> (\<exists>d. v = Some d \<and> 1 \<le> d)))"
proof (intro conjI impI)
  assume "case cf_duracao_semestres (cm_formData ui) of None \<Rightarrow> True | Some d \<Rightarrow> d < 1"
  then have "cursoSchema (cm_formData ui) \<noteq> []" by (rule cursoSchema_short)
  then show "cm_handleSubmit exec w ui
        = (w, cm_toast (validation_toast (hd (cursoSchema (cm_formData ui)))) ui)"
    by (rule cm_handleSubmit_invalid)
next
  show "\<exists>new. sent (fst (cm_handleSubmit exec w ui)) = sent w @ new \<and>
      (\<forall>req \<in> set new. \<forall>v. carries_duracao req = Some v \<longrightarrow> (\<exists>d. v = Some d \<and> 1 \<le> d))"
  proof (cases "cursoSchema (cm_formData ui) = []")
    case False
    then have "sent (fst (cm_handleSubmit exec w ui)) = sent w @ []"
      by (simp add: cm_handleSubmit_invalid)
    then show ?thesis by (intro exI [of _ "[]"]) simp
  next
    case True
    from cursoSchema_duracao [OF True] obtain d where
      d: "cf_duracao_semestres (cm_formData ui) = Some d" "1 \<le> d" by blast
    from cm_handleSubmit_valid [OF True, of exec w] obtain rest where
      s: "sent (fst (cm_handleSubmit exec w ui))
           = sent w @ (case cm_editingCurso ui of
                         Some c \<Rightarrow> Update_curso (cm_formData ui) (c_id c)
                       | None \<Rightarrow> Insert_curso (cm_formData ui)) # rest"
      and r: "set rest \<subseteq> {Fetch_cursos}"
      by blast
    let ?new = "(case cm_editingCurso ui of
                         Some c \<Rightarrow> Update_curso (cm_formData ui) (c_id c)
                       | None \<Rightarrow> Insert_curso (cm_formData ui)) # rest"
    have "\<forall>req \<in> set ?new. \<forall>v. carries_duracao req = Some v \<longrightarrow> (\<exists>d. v = Some d \<and> 1 \<le> d)"
      using d r by (auto simp: carries_duracao_def split: option.splits)
    with s show ?thesis by blast
  qed
qed


lemma short_curso_form:
  "cursoSchema \<lparr>cf_nome = ''Direito'', cf_codigo_curso = ''DIR'', cf_duracao_semestres = Some 0\<rparr>
     = [''Dura'' @ [CHR 0xE7, CHR 0xE3] @ ''o deve ser no m'' @ [CHR 0xED] @ ''nimo 1 semestre'']"
  by (simp add: cursoSchema_def z_string_min_def z_number_min_def)

lemma good_curso_sent:
  "sent (fst (cm_handleSubmit accepting \<lparr>sent = [], backend = 0\<rparr>
                (cm_initial\<lparr>cm_formData := \<lparr>cf_nome = ''Direito'', cf_codigo_curso = ''DIR'',
                                             cf_duracao_semestres = Some 10\<rparr>\<rparr>)))
     = [Insert_curso \<lparr>cf_nome = ''Direito'', cf_codigo_curso = ''DIR'',
                      cf_duracao_semestres = Some 10\<rparr>, Fetch_cursos]"
  by (simp add: cm_handleSubmit_def good_curso_form cm_initial_def cm_saved_def call_def
      accepting_def cm_fetchCursos_def)

theorem course_form_duration_witness:
  "cm_handleSubmit accepting \<lparr>sent = [], backend = 0\<rparr>
       (cm_initial\<lparr>cm_formData := \<lparr>cf_nome = ''Direito'', cf_codigo_curso = ''DIR'',
                                    cf_duracao_semestres = Some 0\<rparr>\<rparr>)
     = (\<lparr>sent = [], backend = 0\<rparr>,
        cm_toast (validation_toast
                    (''Dura'' @ [CHR 0xE7, CHR 0xE3] @ ''o deve ser no m'' @ [CHR 0xED] @
                     ''nimo 1 semestre''))
          (cm_initial\<lparr>cm_formData := \<lparr>cf_nome = ''Direito'', cf_codigo_curso = ''DIR'',
                                       cf_duracao_semestres = Some 0\<rparr>\<rparr>)) \<and>
   sent (fst (cm_handleSubmit accepting \<lparr>sent = [], backend = 0\<rparr>
                (cm_initial\<lparr>cm_formData := \<lparr>cf_nome = ''Direito'', cf_codigo_curso = ''DIR'',
                                             cf_duracao_semestres = Some 10\<rparr>\<rparr>)))
     = [Insert_curso \<lparr>cf_nome = ''Direito'', cf_codigo_curso = ''DIR'',
                      cf_duracao_semestres = Some 10\<rparr>, Fetch_cursos] \<and>
   (\<exists>d. Some (10::int) = Some d \<and> 1 \<le> d)"
proof -
  let ?w = "\<lparr>sent = [], backend = 0::nat\<rparr>"
  let ?short = "\<lparr>cf_nome = ''Direito'', cf_codigo_curso = ''DIR'', cf_duracao_semestres = Some 0\<rparr>"
  let ?good = "\<lparr>cf_nome = ''Direito'', cf_codigo_curso = ''DIR'', cf_duracao_semestres = Some 10\<rparr>"
  have low: "case cf_duracao_semestres (cm_formData (cm_initial\<lparr>cm_formData := ?short\<rparr>)) of
               None \<Rightarrow> True | Some d \<Rightarrow> d < 1"
    by simp
  have hd_short: "hd (cursoSchema (cm_formData (cm_initial\<lparr>cm_formData := ?short\<rparr>)))
      = ''Dura'' @ [CHR 0xE7, CHR 0xE3] @ ''o deve ser no m'' @ [CHR 0xED] @ ''nimo 1 semestre''"
    by (simp add: short_curso_form)
  from course_form_duration [of "cm_initial\<lparr>cm_formData := ?short\<rparr>" accepting ?w] low
  have "cm_handleSubmit accepting ?w (cm_initial\<lparr>cm_formData := ?short\<rparr>)
        = (?w, cm_toast (validation_toast
                 (hd (cursoSchema (cm_formData (cm_initial\<lparr>cm_formData := ?short\<rparr>)))))
               (cm_initial\<lparr>cm_formData := ?short\<rparr>))"
    by blast
  then have refused: "cm_handleSubmit accepting ?w (cm_initial\<lparr>cm_formData := ?short\<rparr>)
        = (?w, cm_toast (validation_toast
                 (''Dura'' @ [CHR 0xE7, CHR 0xE3] @ ''o deve ser no m'' @ [CHR 0xED] @
                  ''nimo 1 semestre''))
               (cm_initial\<lparr>cm_formData := ?short\<rparr>))"
    by (simp only: hd_short)
  from course_form_duration [of "cm_initial\<lparr>cm_formData := ?good\<rparr>" accepting ?w]
  obtain new where
    n: "sent (fst (cm_handleSubmit accepting ?w (cm_initial\<lparr>cm_formData := ?good\<rparr>)))
          = sent ?w @ new"
    and a: "\<forall>req \<in> set new. \<forall>v. carries_duracao req = Some v \<longrightarrow> (\<exists>d. v = Some d \<and> 1 \<le> d)"
    by blast
  from n have new: "new = [Insert_curso ?good, Fetch_cursos]"
    by (simp add: good_curso_sent)
  have c: "carries_duracao (Insert_curso ?good) = Some (Some 10)"
    by (simp add: carries_duracao_def)
  from a new c have d: "\<exists>d. Some (10::int) = Some d \<and> 1 \<le> d"
    by simp
  from refused good_curso_sent d show ?thesis by blast
qed

section \<open>The students offered by the enrollment form\<close>

lemma set_insert_by: "set (insert_by le key r xs) = insert r (set xs)"
  by (induction xs) auto

lemma set_order_by: "set (order_by le key xs) = set xs"
  by (induction xs) (simp_all add: order_by_def set_insert_by)

lemma select_alunos_ativos_ids:
  "set (map ao_id (select_alunos_ativos le st s))
     = a_id ` {r \<in> set (alunos st). a_status r = ATIVO \<and> rls_permits policies_alunos st s SELECT r}"
  by (auto simp: select_alunos_ativos_def set_order_by)

lemma authenticated_sees_alunos:
  "rls_permits policies_alunos st (Authenticated u) SELECT r"
  by (simp add: rls_permits_def policies_alunos_def applies_def)

lemma mm_fetchAlunos_data:
  assumes "data (fst (exec Fetch_alunos_ativos (backend w))) = Some (Aluno_options rs)"
  shows "mm_alunos (snd (mm_fetchAlunos exec w ui)) = rs"
  using assms
  by (cases "exec Fetch_alunos_ativos (backend w)") (simp add: mm_fetchAlunos_def call_def)

lemma mm_aluno_items_values: "map fst (mm_aluno_items ui) = map ao_id (mm_alunos ui)"
  by (simp add: mm_aluno_items_def comp_def)


lemma mm_fetchAlunos_form: "mm_formData (snd (mm_fetchAlunos exec w ui)) = mm_formData ui"
  by (cases "exec Fetch_alunos_ativos (backend w)")
     (simp add: mm_fetchAlunos_def call_def split: option.splits rows.splits)

lemma insert_matriculas_ignores_status:
  assumes "insert_matriculas st s n = Inr st'"
  shows "insert_matriculas (st\<lparr>alunos := map (\<lambda>r. r\<lparr>a_status := f r\<rparr>) (alunos st)\<rparr>) s n
           = Inr (st'\<lparr>alunos := map (\<lambda>r. r\<lparr>a_status := f r\<rparr>) (alunos st)\<rparr>)"
proof -
  have ids: "list_ex (\<lambda>a. a_id a = x) (map (\<lambda>r. r\<lparr>a_status := f r\<rparr>) (alunos st))
               = list_ex (\<lambda>a. a_id a = x) (alunos st)" for x
    by (simp add: list_ex_iff)
  have pol: "rls_permits policies_matriculas
               (st\<lparr>alunos := map (\<lambda>r. r\<lparr>a_status := f r\<rparr>) (alunos st)\<rparr>) s INSERT n
             = rls_permits policies_matriculas st s INSERT n"
    by (simp add: rls_permits_def policies_matriculas_def has_role_def split: option.splits)
  have con: "matriculas_constraints
               (st\<lparr>alunos := map (\<lambda>r. r\<lparr>a_status := f r\<rparr>) (alunos st)\<rparr>) (matriculas st) n
             = matriculas_constraints st (matriculas st) n"
    by (simp add: matriculas_constraints_def ids)
  from assms show ?thesis
    by (auto simp: insert_matriculas_def insert_row_def with_rows_def pol con
        split: if_splits option.splits)
qed

lemma insert_into_matriculas_ignores_status:
  assumes "insert_into_matriculas st s gen now v = Inr st'"
  shows "insert_into_matriculas (st\<lparr>alunos := map (\<lambda>r. r\<lparr>a_status := f r\<rparr>) (alunos st)\<rparr>)
           s gen now v
           = Inr (st'\<lparr>alunos := map (\<lambda>r. r\<lparr>a_status := f r\<rparr>) (alunos st)\<rparr>)"
  using assms
  by (auto simp: insert_into_matriculas_def insert_matriculas_ignores_status
      split: sum.splits)

text \<open>
  Claim C10, as the component has it. When the store answers the student query of the
  enrollment form (the rows with \<open>status = 'ATIVO'\<close> that the session may read, ordered
  by name), the component keeps exactly that answer as its student list. Every value
  the student \<open>Select\<close> offers is then the id of a student whose status is ATIVO in the
  store the answer came from; with ids unique, as the primary key makes them, the id of
  a student whose status there is INATIVO, TRANCADO or FORMADO is not among the values;
  for a signed-in session the values are exactly the ids of the ATIVO students. As long
  as the list is the fetched one, choosing a value and submitting sends the insert of
  the form with that value as \<open>aluno_id\<close>, so the request names a student who was ATIVO
  when the list was fetched. The store, for its part, does not read the status: an
  insert it accepts is accepted whatever the statuses of the students are.
\<close>

theorem enrollment_form_offers_active_students:
  assumes "data (fst (exec Fetch_alunos_ativos (backend w)))
             = Some (Aluno_options (select_alunos_ativos le st s))"
  shows "mm_alunos (snd (mm_fetchAlunos exec w ui)) = select_alunos_ativos le st s \<and>
         (\<forall>v \<in> set (map fst (mm_aluno_items (snd (mm_fetchAlunos exec w ui)))).
            \<exists>r \<in> set (alunos st). a_id r = v \<and> a_status r = ATIVO) \<and>
         (distinct (map a_id (alunos st)) \<longrightarrow>
            (\<forall>r \<in> set (alunos st). a_status r \<noteq> ATIVO \<longrightarrow>
               a_id r \<notin> set (map fst (mm_aluno_items (snd (mm_fetchAlunos exec w ui)))))) \<and>
         (\<forall>u. s = Authenticated u \<longrightarrow>
            set (map fst (mm_aluno_items (snd (mm_fetchAlunos exec w ui))))
              = a_id ` {r \<in> set (alunos st). a_status r = ATIVO}) \<and>
         (mm_alunos ui' = mm_alunos (snd (mm_fetchAlunos exec w ui)) \<longrightarrow>
            (\<forall>v \<in> set (map fst (mm_aluno_items ui')).
               (\<exists>r \<in> set (alunos st). a_id r = v \<and> a_status r = ATIVO) \<and>
               (\<exists>rest. sent (fst (mm_handleSubmit exec' year w' (mm_onValueChange_aluno v ui')))
                         = sent w' @ Insert_matricula ((mm_formData ui')\<lparr>mf_aluno_id := v\<rparr>) # rest))) \<and>
         (insert_into_matriculas st1 s1 gen now val = Inr st2 \<longrightarrow>
            insert_into_matriculas (st1\<lparr>alunos := map (\<lambda>r. r\<lparr>a_status := f r\<rparr>) (alunos st1)\<rparr>)
                s1 gen now val
              = Inr (st2\<lparr>alunos := map (\<lambda>r. r\<lparr>a_status := f r\<rparr>) (alunos st1)\<rparr>))"
proof -
  have fetched: "mm_alunos (snd (mm_fetchAlunos exec w ui)) = select_alunos_ativos le st s"
    using assms by (rule mm_fetchAlunos_data [of exec w "select_alunos_ativos le st s" ui])
  then have vals: "set (map fst (mm_aluno_items (snd (mm_fetchAlunos exec w ui))))
      = a_id ` {r \<in> set (alunos st). a_status r = ATIVO \<and> rls_permits policies_alunos st s SELECT r}"
    by (simp only: mm_aluno_items_values select_alunos_ativos_ids)
  have only: "\<forall>v \<in> set (map fst (mm_aluno_items (snd (mm_fetchAlunos exec w ui)))).
            \<exists>r \<in> set (alunos st). a_id r = v \<and> a_status r = ATIVO"
    unfolding vals by auto
  have never: "distinct (map a_id (alunos st)) \<longrightarrow>
            (\<forall>r \<in> set (alunos st). a_status r \<noteq> ATIVO \<longrightarrow>
               a_id r \<notin> set (map fst (mm_aluno_items (snd (mm_fetchAlunos exec w ui)))))"
    unfolding vals by (auto simp: distinct_map inj_on_def)
  have all: "\<forall>u. s = Authenticated u \<longrightarrow>
            set (map fst (mm_aluno_items (snd (mm_fetchAlunos exec w ui))))
              = a_id ` {r \<in> set (alunos st). a_status r = ATIVO}"
    unfolding vals by (simp add: authenticated_sees_alunos)
  have chosen: "mm_alunos ui' = mm_alunos (snd (mm_fetchAlunos exec w ui)) \<longrightarrow>
            (\<forall>v \<in> set (map fst (mm_aluno_items ui')).
               (\<exists>r \<in> set (alunos st). a_id r = v \<and> a_status r = ATIVO) \<and>
               (\<exists>rest. sent (fst (mm_handleSubmit exec' year w' (mm_onValueChange_aluno v ui')))
                         = sent w' @ Insert_matricula ((mm_formData ui')\<lparr>mf_aluno_id := v\<rparr>) # rest))"
  proof (intro impI ballI conjI)
    fix v
    assume same: "mm_alunos ui' = mm_alunos (snd (mm_fetchAlunos exec w ui))"
      and v: "v \<in> set (map fst (mm_aluno_items ui'))"
    from same have "map fst (mm_aluno_items ui')
        = map fst (mm_aluno_items (snd (mm_fetchAlunos exec w ui)))"
      by (simp only: mm_aluno_items_values)
    with v have "v \<in> set (map fst (mm_aluno_items (snd (mm_fetchAlunos exec w ui))))"
      by (simp only:)
    with only show "\<exists>r \<in> set (alunos st). a_id r = v \<and> a_status r = ATIVO"
      by blast
    have "mm_formData (mm_onValueChange_aluno v ui') = (mm_formData ui')\<lparr>mf_aluno_id := v\<rparr>"
      by (simp add: mm_onValueChange_aluno_def)
    with mm_handleSubmit_sends [of exec' year w' "mm_onValueChange_aluno v ui'"]
    show "\<exists>rest. sent (fst (mm_handleSubmit exec' year w' (mm_onValueChange_aluno v ui')))
                         = sent w' @ Insert_matricula ((mm_formData ui')\<lparr>mf_aluno_id := v\<rparr>) # rest"
      by simp
  qed
  have blind: "insert_into_matriculas st1 s1 gen now val = Inr st2 \<longrightarrow>
            insert_into_matriculas (st1\<lparr>alunos := map (\<lambda>r. r\<lparr>a_status := f r\<rparr>) (alunos st1)\<rparr>)
                s1 gen now val
              = Inr (st2\<lparr>alunos := map (\<lambda>r. r\<lparr>a_status := f r\<rparr>) (alunos st1)\<rparr>)"
    by (simp add: insert_into_matriculas_ignores_status)
  from fetched only never all chosen blind show ?thesis by blast
qed


lemma ana_sees_bia:
  "select_alunos_ativos codepoint_le (campus\<lparr>matriculas := []\<rparr>) (Authenticated ''u-ana'')
     = [\<lparr>ao_id = ''a-1'', ao_nome_completo = ''Bia Lima'', ao_matricula = ''2025-1-0001''\<rparr>]"
  by (simp add: select_alunos_ativos_def order_by_def authenticated_sees_alunos campus_def
      bia_def caio_def)

lemma ana_fetches_bia:
  "mm_fetchAlunos (ana_client (campus\<lparr>matriculas := []\<rparr>)) \<lparr>sent = [], backend = 0\<rparr>
       (mm_initial 2025)
     = (\<lparr>sent = [Fetch_alunos_ativos], backend = 1\<rparr>,
        (mm_initial 2025)\<lparr>mm_alunos :=
           [\<lparr>ao_id = ''a-1'', ao_nome_completo = ''Bia Lima'', ao_matricula = ''2025-1-0001''\<rparr>]\<rparr>)"
  by (simp add: mm_fetchAlunos_def call_def ana_client_def ana_sees_bia)

lemma ana_enrolls_bia:
  "insert_into_matriculas (campus\<lparr>matriculas := []\<rparr>) (Authenticated ''u-ana'') ''m-9'' 600
       \<lparr>v_aluno_id = ''a-1'', v_curso_id = ''c-1'', v_ano_ingresso = 2025, v_semestre_ingresso = 1\<rparr>
     = Inr (campus\<lparr>matriculas :=
              [\<lparr>m_id = ''m-9'', m_aluno_id = ''a-1'', m_curso_id = ''c-1'', m_ano_ingresso = 2025,
                m_semestre_ingresso = 1, m_data_matricula = 600\<rparr>]\<rparr>)"
  by (simp add: insert_into_matriculas_def int4_in_def in_int4_def insert_matriculas_def
      insert_row_def with_rows_def matriculas_constraints_def rls_permits_def
      policies_matriculas_def applies_def has_role_def campus_def bia_def caio_def eng_sw_def)

text \<open>
  A student who is not ATIVO can be enrolled through the form's list. The list is
  fetched once, when the component mounts: in the example store without enrollments the
  administrator's form offers Bia (a-1). Bia is then set to INATIVO. The form still
  offers a-1; choosing it, choosing the course c-1 and submitting sends the insert for
  (a-1, c-1), and the store, where Bia is now INATIVO, accepts the values of that
  request and stores the enrollment.
\<close>

theorem stale_student_list_counterexample:
  "map fst (mm_aluno_items
     (snd (mm_fetchAlunos (ana_client (campus\<lparr>matriculas := []\<rparr>)) \<lparr>sent = [], backend = 0\<rparr>
             (mm_initial 2025)))) = [''a-1''] \<and>
   update_alunos (campus\<lparr>matriculas := []\<rparr>) (Authenticated ''u-ana'') 300
       (\<lambda>r. a_id r = ''a-1'') (\<lambda>r. r\<lparr>a_status := INATIVO\<rparr>)
     = Inr (campus\<lparr>alunos := [bia\<lparr>a_status := INATIVO, a_updated_at := 300\<rparr>, caio],
                  matriculas := []\<rparr>) \<and>
   sent (fst (mm_handleSubmit accepting 2025 \<lparr>sent = [], backend = 0\<rparr>
                (mm_onValueChange_curso ''c-1''
                   (mm_onValueChange_aluno ''a-1''
                      (snd (mm_fetchAlunos (ana_client (campus\<lparr>matriculas := []\<rparr>))
                              \<lparr>sent = [], backend = 0\<rparr> (mm_initial 2025)))))))
     = [Insert_matricula \<lparr>mf_aluno_id = ''a-1'', mf_curso_id = ''c-1'',
                          mf_ano_ingresso = Some 2025, mf_semestre_ingresso = Some 1\<rparr>,
        Fetch_matriculas] \<and>
   insert_into_matriculas
       (campus\<lparr>alunos := [bia\<lparr>a_status := INATIVO, a_updated_at := 300\<rparr>, caio],
                matriculas := []\<rparr>)
       (Authenticated ''u-ana'') ''m-9'' 600
       \<lparr>v_aluno_id = ''a-1'', v_curso_id = ''c-1'', v_ano_ingresso = 2025, v_semestre_ingresso = 1\<rparr>
     = Inr (campus\<lparr>alunos := [bia\<lparr>a_status := INATIVO, a_updated_at := 300\<rparr>, caio],
                  matriculas :=
                    [\<lparr>m_id = ''m-9'', m_aluno_id = ''a-1'', m_curso_id = ''c-1'',
                      m_ano_ingresso = 2025, m_semestre_ingresso = 1, m_data_matricula = 600\<rparr>]\<rparr>)"
proof -
  have offered: "map fst (mm_aluno_items
     (snd (mm_fetchAlunos (ana_client (campus\<lparr>matriculas := []\<rparr>)) \<lparr>sent = [], backend = 0\<rparr>
             (mm_initial 2025)))) = [''a-1'']"
    by (simp add: ana_fetches_bia mm_aluno_items_def)
  have deactivated: "update_alunos (campus\<lparr>matriculas := []\<rparr>) (Authenticated ''u-ana'') 300
       (\<lambda>r. a_id r = ''a-1'') (\<lambda>r. r\<lparr>a_status := INATIVO\<rparr>)
     = Inr (campus\<lparr>alunos := [bia\<lparr>a_status := INATIVO, a_updated_at := 300\<rparr>, caio],
                  matriculas := []\<rparr>)"
    by (simp add: update_alunos_def with_rows_def update_alunos_updated_at_def or_else_def
        alunos_constraints_def alunos_referenced_def rls_target_def rls_permits_def
        policies_alunos_def applies_def has_role_def campus_def bia_def caio_def)
  have submitted: "sent (fst (mm_handleSubmit accepting 2025 \<lparr>sent = [], backend = 0\<rparr>
                (mm_onValueChange_curso ''c-1''
                   (mm_onValueChange_aluno ''a-1''
                      (snd (mm_fetchAlunos (ana_client (campus\<lparr>matriculas := []\<rparr>))
                              \<lparr>sent = [], backend = 0\<rparr> (mm_initial 2025)))))))
     = [Insert_matricula \<lparr>mf_aluno_id = ''a-1'', mf_curso_id = ''c-1'',
                          mf_ano_ingresso = Some 2025, mf_semestre_ingresso = Some 1\<rparr>,
        Fetch_matriculas]"
    by (simp only: ana_fetches_bia snd_conv)
       (simp add: mm_handleSubmit_def call_def accepting_def mm_onValueChange_curso_def
          mm_onValueChange_aluno_def mm_initial_def mm_fetchMatriculas_def)
  have accepted: "insert_into_matriculas
       (campus\<lparr>alunos := [bia\<lparr>a_status := INATIVO, a_updated_at := 300\<rparr>, caio],
                matriculas := []\<rparr>)
       (Authenticated ''u-ana'') ''m-9'' 600
       \<lparr>v_aluno_id = ''a-1'', v_curso_id = ''c-1'', v_ano_ingresso = 2025, v_semestre_ingresso = 1\<rparr>
     = Inr (campus\<lparr>alunos := [bia\<lparr>a_status := INATIVO, a_updated_at := 300\<rparr>, caio],
                  matriculas :=
                    [\<lparr>m_id = ''m-9'', m_aluno_id = ''a-1'', m_curso_id = ''c-1'',
                      m_ano_ingresso = 2025, m_semestre_ingresso = 1, m_data_matricula = 600\<rparr>]\<rparr>)"
    by (simp add: insert_into_matriculas_def int4_in_def in_int4_def insert_matriculas_def
        insert_row_def with_rows_def matriculas_constraints_def rls_permits_def
        policies_matriculas_def applies_def has_role_def campus_def bia_def caio_def eng_sw_def)
  from offered deactivated submitted accepted show ?thesis by blast
qed


theorem enrollment_form_offers_active_students_witness:
  "data (fst (ana_client (campus\<lparr>matriculas := []\<rparr>) Fetch_alunos_ativos
                (backend \<lparr>sent = [], backend = 0\<rparr>)))
     = Some (Aluno_options
               (select_alunos_ativos codepoint_le (campus\<lparr>matriculas := []\<rparr>)
                  (Authenticated ''u-ana''))) \<and>
   mm_alunos (snd (mm_fetchAlunos (ana_client (campus\<lparr>matriculas := []\<rparr>))
                     \<lparr>sent = [], backend = 0\<rparr> (mm_initial 2025)))
     = [\<lparr>ao_id = ''a-1'', ao_nome_completo = ''Bia Lima'', ao_matricula = ''2025-1-0001''\<rparr>] \<and>
   distinct (map a_id (alunos (campus\<lparr>matriculas := []\<rparr>))) \<and>
   caio \<in> set (alunos (campus\<lparr>matriculas := []\<rparr>)) \<and> a_status caio = INATIVO \<and>
   a_id caio \<notin> set (map fst (mm_aluno_items
                    (snd (mm_fetchAlunos (ana_client (campus\<lparr>matriculas := []\<rparr>))
                            \<lparr>sent = [], backend = 0\<rparr> (mm_initial 2025))))) \<and>
   set (map fst (mm_aluno_items
          (snd (mm_fetchAlunos (ana_client (campus\<lparr>matriculas := []\<rparr>))
                  \<lparr>sent = [], backend = 0\<rparr> (mm_initial 2025)))))
     = {''a-1''} \<and>
   (\<exists>r \<in> set (alunos (campus\<lparr>matriculas := []\<rparr>)). a_id r = ''a-1'' \<and> a_status r = ATIVO) \<and>
   (\<exists>rest. sent (fst (mm_handleSubmit accepting 2025 \<lparr>sent = [], backend = 0\<rparr>
                         (mm_onValueChange_aluno ''a-1''
                            (snd (mm_fetchAlunos (ana_client (campus\<lparr>matriculas := []\<rparr>))
                                    \<lparr>sent = [], backend = 0\<rparr> (mm_initial 2025))))))
            = Insert_matricula \<lparr>mf_aluno_id = ''a-1'', mf_curso_id = [],
                                 mf_ano_ingresso = Some 2025, mf_semestre_ingresso = Some 1\<rparr>
              # rest) \<and>
   insert_into_matriculas
       (campus\<lparr>matriculas := [],
                alunos := map (\<lambda>r. r\<lparr>a_status := FORMADO\<rparr>) (alunos (campus\<lparr>matriculas := []\<rparr>))\<rparr>)
       (Authenticated ''u-ana'') ''m-9'' 600
       \<lparr>v_aluno_id = ''a-1'', v_curso_id = ''c-1'', v_ano_ingresso = 2025, v_semestre_ingresso = 1\<rparr>
     = Inr (campus\<lparr>matriculas :=
                    [\<lparr>m_id = ''m-9'', m_aluno_id = ''a-1'', m_curso_id = ''c-1'',
                      m_ano_ingresso = 2025, m_semestre_ingresso = 1, m_data_matricula = 600\<rparr>],
                  alunos := map (\<lambda>r. r\<lparr>a_status := FORMADO\<rparr>)
                              (alunos (campus\<lparr>matriculas := []\<rparr>))\<rparr>)"
proof -
  let ?st = "campus\<lparr>matriculas := []\<rparr>"
  let ?w = "\<lparr>sent = [], backend = 0::nat\<rparr>"
  let ?A = "Authenticated ''u-ana''"
  let ?ui = "snd (mm_fetchAlunos (ana_client ?st) ?w (mm_initial 2025))"
  let ?val = "\<lparr>v_aluno_id = ''a-1'', v_curso_id = ''c-1'', v_ano_ingresso = 2025,
               v_semestre_ingresso = 1\<rparr>"
  let ?st2 = "campus\<lparr>matriculas :=
                    [\<lparr>m_id = ''m-9'', m_aluno_id = ''a-1'', m_curso_id = ''c-1'',
                      m_ano_ingresso = 2025, m_semestre_ingresso = 1, m_data_matricula = 600\<rparr>]\<rparr>"
  have answer: "data (fst (ana_client ?st Fetch_alunos_ativos (backend ?w)))
     = Some (Aluno_options (select_alunos_ativos codepoint_le ?st ?A))"
    by (simp add: ana_client_def)
  have ids: "distinct (map a_id (alunos ?st))"
    by (simp add: campus_def bia_def caio_def)
  have caio: "caio \<in> set (alunos ?st)" "a_status caio = INATIVO" "a_status caio \<noteq> ATIVO"
    by (simp_all add: campus_def caio_def)
  have "a_id ` {r \<in> set (alunos ?st). a_status r = ATIVO}
          = set (map a_id (filter (\<lambda>r. a_status r = ATIVO) (alunos ?st)))"
    by auto
  also have "\<dots> = {''a-1''}"
    by (simp add: campus_def bia_def caio_def)
  finally have ativos: "a_id ` {r \<in> set (alunos ?st). a_status r = ATIVO} = {''a-1''}" .
  have form: "(mm_formData ?ui)\<lparr>mf_aluno_id := ''a-1''\<rparr>
      = \<lparr>mf_aluno_id = ''a-1'', mf_curso_id = [], mf_ano_ingresso = Some 2025,
         mf_semestre_ingresso = Some 1\<rparr>"
    by (simp add: mm_fetchAlunos_form mm_initial_def)
  note fact = enrollment_form_offers_active_students
      [where exec = "ana_client ?st" and w = ?w and le = codepoint_le and st = ?st
         and s = ?A and ui = "mm_initial 2025" and ui' = ?ui and exec' = accepting
         and year = 2025 and w' = ?w and ?st1.0 = ?st and ?s1.0 = ?A and gen = "''m-9''"
         and now = 600 and val = ?val and ?st2.0 = ?st2 and f = "\<lambda>r. FORMADO", OF answer]
  from fact have fetched: "mm_alunos ?ui = select_alunos_ativos codepoint_le ?st ?A"
    by blast
  then have shown: "mm_alunos ?ui
     = [\<lparr>ao_id = ''a-1'', ao_nome_completo = ''Bia Lima'', ao_matricula = ''2025-1-0001''\<rparr>]"
    by (simp only: ana_sees_bia)
  from fact ids caio have absent: "a_id caio \<notin> set (map fst (mm_aluno_items ?ui))"
    by blast
  from fact have "set (map fst (mm_aluno_items ?ui))
      = a_id ` {r \<in> set (alunos ?st). a_status r = ATIVO}"
    by blast
  with ativos have exactly: "set (map fst (mm_aluno_items ?ui)) = {''a-1''}"
    by simp
  then have member: "''a-1'' \<in> set (map fst (mm_aluno_items ?ui))"
    by simp
  from fact member have chosen:
    "(\<exists>r \<in> set (alunos ?st). a_id r = ''a-1'' \<and> a_status r = ATIVO) \<and>
     (\<exists>rest. sent (fst (mm_handleSubmit accepting 2025 ?w (mm_onValueChange_aluno ''a-1'' ?ui)))
               = sent ?w @ Insert_matricula ((mm_formData ?ui)\<lparr>mf_aluno_id := ''a-1''\<rparr>) # rest)"
    by blast
  then have active: "\<exists>r \<in> set (alunos ?st). a_id r = ''a-1'' \<and> a_status r = ATIVO"
    and request: "\<exists>rest. sent (fst (mm_handleSubmit accepting 2025 ?w
                                      (mm_onValueChange_aluno ''a-1'' ?ui)))
               = Insert_matricula \<lparr>mf_aluno_id = ''a-1'', mf_curso_id = [],
                                    mf_ano_ingresso = Some 2025, mf_semestre_ingresso = Some 1\<rparr>
                 # rest"
    by (simp_all only: form world.simps append_Nil)
  from fact ana_enrolls_bia have blind:
    "insert_into_matriculas (?st\<lparr>alunos := map (\<lambda>r. r\<lparr>a_status := FORMADO\<rparr>) (alunos ?st)\<rparr>)
        ?A ''m-9'' 600 ?val
       = Inr (?st2\<lparr>alunos := map (\<lambda>r. r\<lparr>a_status := FORMADO\<rparr>) (alunos ?st)\<rparr>)"
    by blast
  from answer shown ids caio(1,2) absent exactly active request blind show ?thesis by blast
qed


end
